theory Spec2Isabelle
  imports Complex_Main
begin

section \<open>Python values\<close>

text \<open>
  The agents exchange and persist plain data: the values that \<^verbatim>\<open>json.load\<close> returns and
  that dictionary literals in the source build. A dictionary is an association list whose
  first binding of a key is the one looked up.

  A Python float is an IEEE double. A finite double denotes a rational number, so
  \<open>Fin q\<close> stands for the double whose value is \<open>q\<close> (the sign of zero is not kept:
  Python's truth test and comparisons do not see it). Arithmetic on finite doubles is the
  exact operation followed by rounding; the rounding function is a parameter \<open>rnd\<close> of
  every function that computes with floats, and nothing is assumed about it.
\<close>

datatype pyfloat = Fin rat | PosInf | NegInf | NaN

datatype pyval =
    PNone
  | PBool bool
  | PInt int
  | PFloat pyfloat
  | PStr string
  | PList "pyval list"
  | PDict "(string \<times> pyval) list"

type_synonym pydict = "(string \<times> pyval) list"

text \<open>Python's truth test (\<^verbatim>\<open>if x:\<close>, \<^verbatim>\<open>x or y\<close>).\<close>

fun truthy :: "pyval \<Rightarrow> bool" where
  "truthy PNone = False"
| "truthy (PBool b) = b"
| "truthy (PInt i) = (i \<noteq> 0)"
| "truthy (PFloat f) = (f \<noteq> Fin 0)"
| "truthy (PStr s) = (s \<noteq> [])"
| "truthy (PList xs) = (xs \<noteq> [])"
| "truthy (PDict kvs) = (kvs \<noteq> [])"

text \<open>Exceptions, by class. \<open>IllTyped\<close> is not a Python exception: it marks a value that
  violates a type annotation of the source where the model keeps the annotated type.\<close>

datatype pyerr =
    KeyError
  | ValueError
  | TypeError
  | AttributeError
  | ZeroDivisionError
  | OverflowError
  | OSError
  | IllTyped

definition bind_err :: "pyerr + 'a \<Rightarrow> ('a \<Rightarrow> pyerr + 'b) \<Rightarrow> pyerr + 'b" where
  "bind_err r f = (case r of Inl e \<Rightarrow> Inl e | Inr v \<Rightarrow> f v)"

text \<open>\<^verbatim>\<open>d.get(k)\<close> and \<^verbatim>\<open>d.get(k, default)\<close> on a dictionary.\<close>

definition dict_get :: "pydict \<Rightarrow> string \<Rightarrow> pyval" where
  "dict_get d k = (case map_of d k of None \<Rightarrow> PNone | Some v \<Rightarrow> v)"

definition dict_get_default :: "pydict \<Rightarrow> string \<Rightarrow> pyval \<Rightarrow> pyval" where
  "dict_get_default d k dflt = (case map_of d k of None \<Rightarrow> dflt | Some v \<Rightarrow> v)"

text \<open>\<^verbatim>\<open>d[k]\<close> on a dictionary: a missing key raises KeyError.\<close>

definition dict_item :: "pydict \<Rightarrow> string \<Rightarrow> pyerr + pyval" where
  "dict_item d k = (case map_of d k of None \<Rightarrow> Inl KeyError | Some v \<Rightarrow> Inr v)"

section \<open>Enumerations\<close>

datatype AgentType = ORCHESTRATOR | CRAWLER | ANALYSIS | IMPLEMENTATION | FEEDBACK

datatype MessageType = REQUEST | RESPONSE | NOTIFICATION | ERROR

datatype SystemState =
  INITIALIZING | CRAWLING | ANALYZING | IMPLEMENTING | FEEDBACK_STATE | COMPLETE | ERROR_STATE

text \<open>The \<^verbatim>\<open>.value\<close> of each member.\<close>

fun AgentType_value :: "AgentType \<Rightarrow> string" where
  "AgentType_value ORCHESTRATOR = ''orchestrator''"
| "AgentType_value CRAWLER = ''crawler''"
| "AgentType_value ANALYSIS = ''analysis''"
| "AgentType_value IMPLEMENTATION = ''implementation''"
| "AgentType_value FEEDBACK = ''feedback''"

fun MessageType_value :: "MessageType \<Rightarrow> string" where
  "MessageType_value REQUEST = ''request''"
| "MessageType_value RESPONSE = ''response''"
| "MessageType_value NOTIFICATION = ''notification''"
| "MessageType_value ERROR = ''error''"

fun SystemState_value :: "SystemState \<Rightarrow> string" where
  "SystemState_value INITIALIZING = ''initializing''"
| "SystemState_value CRAWLING = ''crawling''"
| "SystemState_value ANALYZING = ''analyzing''"
| "SystemState_value IMPLEMENTING = ''implementing''"
| "SystemState_value FEEDBACK_STATE = ''feedback''"
| "SystemState_value COMPLETE = ''complete''"
| "SystemState_value ERROR_STATE = ''error''"

text \<open>The enum constructors \<^verbatim>\<open>AgentType(v)\<close> and \<^verbatim>\<open>MessageType(v)\<close>: the member whose
  value equals \<open>v\<close>, ValueError when there is none.\<close>

definition AgentType_of :: "pyval \<Rightarrow> pyerr + AgentType" where
  "AgentType_of v =
     (if v = PStr ''orchestrator'' then Inr ORCHESTRATOR
      else if v = PStr ''crawler'' then Inr CRAWLER
      else if v = PStr ''analysis'' then Inr ANALYSIS
      else if v = PStr ''implementation'' then Inr IMPLEMENTATION
      else if v = PStr ''feedback'' then Inr FEEDBACK
      else Inl ValueError)"

definition MessageType_of :: "pyval \<Rightarrow> pyerr + MessageType" where
  "MessageType_of v =
     (if v = PStr ''request'' then Inr REQUEST
      else if v = PStr ''response'' then Inr RESPONSE
      else if v = PStr ''notification'' then Inr NOTIFICATION
      else if v = PStr ''error'' then Inr ERROR
      else Inl ValueError)"

section \<open>Message\<close>

text \<open>The fields carry the types of the constructor's annotations.\<close>

record Message =
  message_id :: string
  source_agent :: AgentType
  destination_agent :: AgentType
  message_type :: MessageType
  timestamp :: string
  priority :: int
  payload :: pydict
  metadata :: pydict

text \<open>
  \<^verbatim>\<open>Message.__init__\<close>. The optional arguments default to None; \<open>fresh_id\<close> is the
  value of \<^verbatim>\<open>f"{int(time.time())}-{id(self)}"\<close> and \<open>now\<close> that of
  \<^verbatim>\<open>datetime.utcnow().isoformat()\<close> at the call. \<^verbatim>\<open>x or y\<close> takes \<open>y\<close> when \<open>x\<close> is None
  or empty.
\<close>

definition Message_init ::
  "string \<Rightarrow> string \<Rightarrow> AgentType \<Rightarrow> AgentType \<Rightarrow> MessageType \<Rightarrow> pydict \<Rightarrow>
   string option \<Rightarrow> string option \<Rightarrow> int \<Rightarrow> pydict option \<Rightarrow> Message" where
  "Message_init fresh_id now src dst mt pl mid ts prio meta =
     \<lparr> message_id = (case mid of Some s \<Rightarrow> (if s \<noteq> [] then s else fresh_id) | None \<Rightarrow> fresh_id),
       source_agent = src,
       destination_agent = dst,
       message_type = mt,
       timestamp = (case ts of Some s \<Rightarrow> (if s \<noteq> [] then s else now) | None \<Rightarrow> now),
       priority = prio,
       payload = pl,
       metadata = (case meta of Some d \<Rightarrow> (if d \<noteq> [] then d else []) | None \<Rightarrow> []) \<rparr>"

definition to_dict :: "Message \<Rightarrow> pydict" where
  "to_dict m =
     [ (''message_id'', PStr (message_id m)),
       (''source_agent'', PStr (AgentType_value (source_agent m))),
       (''destination_agent'', PStr (AgentType_value (destination_agent m))),
       (''message_type'', PStr (MessageType_value (message_type m))),
       (''timestamp'', PStr (timestamp m)),
       (''priority'', PInt (priority m)),
       (''payload'', PDict (payload m)),
       (''metadata'', PDict (metadata m)) ]"

text \<open>Reading an entry back at its annotated type.\<close>

definition as_str :: "pyval \<Rightarrow> pyerr + string option" where
  "as_str v = (case v of PStr s \<Rightarrow> Inr (Some s) | PNone \<Rightarrow> Inr None | _ \<Rightarrow> Inl IllTyped)"

definition as_int :: "pyval \<Rightarrow> pyerr + int" where
  "as_int v = (case v of PInt i \<Rightarrow> Inr i | _ \<Rightarrow> Inl IllTyped)"

definition as_dict :: "pyval \<Rightarrow> pyerr + pydict" where
  "as_dict v = (case v of PDict d \<Rightarrow> Inr d | _ \<Rightarrow> Inl IllTyped)"

definition as_opt_dict :: "pyval \<Rightarrow> pyerr + pydict option" where
  "as_opt_dict v = (case v of PDict d \<Rightarrow> Inr (Some d) | PNone \<Rightarrow> Inr None | _ \<Rightarrow> Inl IllTyped)"

text \<open>
  \<^verbatim>\<open>Message.from_dict\<close>. The arguments of \<^verbatim>\<open>cls(...)\<close> are evaluated in the order
  written: the three enum conversions, then payload, message_id, timestamp, priority,
  metadata; the first missing key or unknown enum value raises.
\<close>

definition from_dict :: "string \<Rightarrow> string \<Rightarrow> pydict \<Rightarrow> pyerr + Message" where
  "from_dict fresh_id now data =
     bind_err (bind_err (dict_item data ''source_agent'') AgentType_of) (\<lambda>src.
     bind_err (bind_err (dict_item data ''destination_agent'') AgentType_of) (\<lambda>dst.
     bind_err (bind_err (dict_item data ''message_type'') MessageType_of) (\<lambda>mt.
     bind_err (bind_err (dict_item data ''payload'') as_dict) (\<lambda>pl.
     bind_err (bind_err (dict_item data ''message_id'') as_str) (\<lambda>mid.
     bind_err (bind_err (dict_item data ''timestamp'') as_str) (\<lambda>ts.
     bind_err (bind_err (dict_item data ''priority'') as_int) (\<lambda>prio.
     bind_err (bind_err (dict_item data ''metadata'') as_opt_dict) (\<lambda>meta.
       Inr (Message_init fresh_id now src dst mt pl mid ts prio meta)))))))))"

section \<open>Files\<close>

text \<open>
  Every file of the system is rewritten whole with \<^verbatim>\<open>open(path, 'w')\<close> followed by
  \<^verbatim>\<open>json.dump\<close>, inside a \<^verbatim>\<open>try\<close> whose handler only logs. A write either succeeds,
  or fails at \<^verbatim>\<open>open\<close> (the file keeps what it held), or fails during the dump (the file
  is left truncated or partial). Which one happens is decided by the operating system
  and is an argument of the model.
\<close>

datatype io = IoOk | OpenFails | DumpFails

datatype 'a disk_file = NoFile | Contents 'a | Partial

fun write_file :: "io \<Rightarrow> 'a \<Rightarrow> 'a disk_file \<Rightarrow> 'a disk_file" where
  "write_file IoOk x f = Contents x"
| "write_file OpenFails x f = f"
| "write_file DumpFails x f = Partial"

section \<open>Agent\<close>

text \<open>
  The status file holds \<^verbatim>\<open>{"status", "timestamp", "agent_type"[, "error"]}\<close>. The
  timestamp is the wall clock at the write and is left out of the modelled contents.
\<close>

record status_data =
  sd_status :: string
  sd_agent_type :: string
  sd_error :: "string option"

record Agent =
  agent_type :: AgentType
  running :: bool
  status :: string
  status_file :: "status_data disk_file"

text \<open>\<^verbatim>\<open>Agent.__init__\<close>: not running, idle; nothing has been written yet.\<close>

definition Agent_init :: "AgentType \<Rightarrow> Agent" where
  "Agent_init t = \<lparr> agent_type = t, running = False, status = ''idle'', status_file = NoFile \<rparr>"

text \<open>
  \<^verbatim>\<open>Agent.update_status\<close>. The record is composed from the status held on entry; then
  \<^verbatim>\<open>if error:\<close> (true for a non-empty string only) adds the error entry and sets the
  in-memory status; then the record is written.
\<close>

definition update_status ::
  "io \<Rightarrow> string option \<Rightarrow> 'a Agent_scheme \<Rightarrow> 'a Agent_scheme" where
  "update_status w error a =
     (let data0 = \<lparr> sd_status = status a,
                     sd_agent_type = AgentType_value (agent_type a),
                     sd_error = None \<rparr>;
          given = (case error of None \<Rightarrow> False | Some e \<Rightarrow> e \<noteq> []);
          data1 = (if given then data0\<lparr> sd_error := error \<rparr> else data0);
          a1 = (if given then a\<lparr> status := ''error'' \<rparr> else a)
      in a1\<lparr> status_file := write_file w data1 (status_file a1) \<rparr>)"

text \<open>\<^verbatim>\<open>Agent.start\<close> and \<^verbatim>\<open>Agent.stop\<close>.\<close>

definition start :: "io \<Rightarrow> 'a Agent_scheme \<Rightarrow> 'a Agent_scheme" where
  "start w a = update_status w None (a\<lparr> running := True, status := ''running'' \<rparr>)"

definition stop :: "io \<Rightarrow> 'a Agent_scheme \<Rightarrow> 'a Agent_scheme" where
  "stop w a = update_status w None (a\<lparr> running := False, status := ''idle'' \<rparr>)"

text \<open>
  The base class's \<^verbatim>\<open>handle_message\<close> logs the message and returns None; its \<^verbatim>\<open>do_work\<close>
  only sleeps. Subclasses override them, and \<^verbatim>\<open>run\<close> calls whatever the object has. In
  the model of \<^verbatim>\<open>run\<close> they are parameters acting on the shared queue (oldest message
  first) and the agent: each gives the state it leaves behind and \<open>Some (str e)\<close> when
  it let an exception \<open>e\<close> out; \<open>handle\<close> also gives the response it returned.
\<close>

type_synonym 'a agent_state = "Message list \<times> 'a Agent_scheme"

type_synonym 'a handler =
  "'a agent_state \<Rightarrow> Message \<Rightarrow> string option \<times> 'a agent_state \<times> Message option"

type_synonym 'a worker = "'a agent_state \<Rightarrow> string option \<times> 'a agent_state"

definition Agent_handle_message :: "'a handler" where
  "Agent_handle_message s m = (None, s, None)"

definition Agent_do_work :: "'a worker" where
  "Agent_do_work s = (None, s)"

definition Agent_start :: "io \<Rightarrow> 'a worker" where
  "Agent_start w s = (None, (fst s, start w (snd s)))"

text \<open>
  One pass of the body of \<^verbatim>\<open>while self.running\<close>. \<^verbatim>\<open>get_nowait\<close> takes the oldest
  message: one addressed to this agent goes to \<open>handle\<close> and a response, if any, is put
  on the queue; one addressed to another agent is put back at the end. On an empty
  queue (\<^verbatim>\<open>QueueEmpty\<close>) the agent does its work and sleeps; \<open>env k\<close> is what the other
  tasks, and a \<^verbatim>\<open>stop\<close> requested from outside, have done to the state when it wakes up
  in pass \<open>k\<close>.
\<close>

definition loop_pass ::
  "(nat \<Rightarrow> 'a agent_state \<Rightarrow> 'a agent_state) \<Rightarrow> 'a handler \<Rightarrow> 'a worker \<Rightarrow> nat \<Rightarrow>
   'a agent_state \<Rightarrow> string option \<times> 'a agent_state" where
  "loop_pass env handle do_work k s =
     (case fst s of
        [] \<Rightarrow>
          (case do_work s of
             (Some e, s') \<Rightarrow> (Some e, s')
           | (None, s') \<Rightarrow> (None, env k s'))
      | m # q \<Rightarrow>
          if destination_agent m = agent_type (snd s) then
            (case handle (q, snd s) m of
               (Some e, s', r) \<Rightarrow> (Some e, s')
             | (None, s', None) \<Rightarrow> (None, s')
             | (None, s', Some response) \<Rightarrow> (None, (fst s' @ [response], snd s')))
          else (None, (q @ [m], snd s)))"

text \<open>
  The loop. It may never end, so it runs on fuel: \<open>None\<close> is a loop still running when
  the fuel is spent. It ends with \<open>Some (None, s)\<close> when \<^verbatim>\<open>self.running\<close> is found false
  and with \<open>Some (Some (str e), s)\<close> as soon as a pass lets an exception out.
\<close>

fun run_loop ::
  "nat \<Rightarrow> (nat \<Rightarrow> 'a agent_state \<Rightarrow> 'a agent_state) \<Rightarrow> 'a handler \<Rightarrow> 'a worker \<Rightarrow> nat \<Rightarrow>
   'a agent_state \<Rightarrow> (string option \<times> 'a agent_state) option" where
  "run_loop 0 env handle do_work k s = None"
| "run_loop (Suc fuel) env handle do_work k s =
     (if \<not> running (snd s) then Some (None, s)
      else (case loop_pass env handle do_work k s of
              (Some e, s') \<Rightarrow> Some (Some e, s')
            | (None, s') \<Rightarrow> run_loop fuel env handle do_work (Suc k) s'))"

text \<open>The \<^verbatim>\<open>try\<close> block of \<^verbatim>\<open>Agent.run\<close>: \<^verbatim>\<open>self.start()\<close> (\<open>startf\<close>, overridden by two
  subclasses), then the loop.\<close>

definition run_try ::
  "nat \<Rightarrow> 'a worker \<Rightarrow> (nat \<Rightarrow> 'a agent_state \<Rightarrow> 'a agent_state) \<Rightarrow> 'a handler \<Rightarrow> 'a worker \<Rightarrow>
   'a agent_state \<Rightarrow> (string option \<times> 'a agent_state) option" where
  "run_try fuel startf env handle do_work s =
     (case startf s of
        (Some e, s') \<Rightarrow> Some (Some e, s')
      | (None, s') \<Rightarrow> run_loop fuel env handle do_work 0 s')"

text \<open>The \<^verbatim>\<open>except Exception as e\<close> handler.\<close>

definition run_except :: "io \<Rightarrow> string \<Rightarrow> 'a Agent_scheme \<Rightarrow> 'a Agent_scheme" where
  "run_except w e a = update_status w (Some e) (a\<lparr> status := ''error'' \<rparr>)"

text \<open>\<^verbatim>\<open>Agent.run\<close>: the handler when an exception escaped, then
  \<^verbatim>\<open>finally: await self.stop()\<close> in either case. \<open>w_err\<close> and \<open>w_stop\<close> are the outcomes of
  the two writes.\<close>

definition run ::
  "nat \<Rightarrow> io \<Rightarrow> io \<Rightarrow> 'a worker \<Rightarrow> (nat \<Rightarrow> 'a agent_state \<Rightarrow> 'a agent_state) \<Rightarrow> 'a handler \<Rightarrow>
   'a worker \<Rightarrow> 'a agent_state \<Rightarrow> 'a agent_state option" where
  "run fuel w_err w_stop startf env handle do_work s =
     (case run_try fuel startf env handle do_work s of
        None \<Rightarrow> None
      | Some (Some e, s') \<Rightarrow> Some (fst s', stop w_stop (run_except w_err e (snd s')))
      | Some (None, s') \<Rightarrow> Some (fst s', stop w_stop (snd s')))"

text \<open>For the examples: a handler that raises \<^verbatim>\<open>Exception(msg)\<close>, other tasks that leave
  the state alone, and a request addressed to the analysis agent.\<close>

definition raising_handler :: "string \<Rightarrow> 'a handler" where
  "raising_handler msg s m = (Some msg, s, None)"

definition quiet_env :: "nat \<Rightarrow> 'a agent_state \<Rightarrow> 'a agent_state" where
  "quiet_env k s = s"

definition analyze_request :: Message where
  "analyze_request =
     Message_init ''0-0'' ''1970-01-01T00:00:00'' CRAWLER ANALYSIS REQUEST
       [(''action'', PStr ''analyze''),
        (''crawl_result_path'', PStr ''crawler/output/result.json'')]
       None None 5 None"

section \<open>OrchestratorAgent\<close>

text \<open>
  A message handed to \<^verbatim>\<open>send_message\<close> or returned by \<^verbatim>\<open>handle_message\<close> is given by its
  destination, type and payload; the source is the orchestrator, and the constructor
  supplies a fresh identifier, the current time, priority 5 and empty metadata.
\<close>

record outgoing =
  og_destination :: AgentType
  og_type :: MessageType
  og_payload :: pydict

text \<open>
  The system-state file. As for the status file the timestamp is left out, and so is
  the module constant \<^verbatim>\<open>FOREVERVM_AVAILABLE\<close>.
\<close>

record state_data =
  st_state :: string
  st_current_iteration :: int
  st_max_iterations :: int
  st_agent_states :: "AgentType \<Rightarrow> string"
  st_target_url :: pyval

text \<open>
  The orchestrator's attributes on top of the base class's. \<^verbatim>\<open>agents_status\<close> is created
  with one key per member of \<^verbatim>\<open>AgentType\<close> and is only ever assigned at such keys, so it
  is a total function; \<^verbatim>\<open>agent_results\<close> starts empty. \<open>outbox\<close> collects what
  \<^verbatim>\<open>send_message\<close> has put on the queue, oldest first. \<open>config_file\<close> is the shared
  \<^verbatim>\<open>config.json\<close>.
\<close>

record OrchestratorAgent = Agent +
  config :: pydict
  system_state :: SystemState
  agents_status :: "AgentType \<Rightarrow> string"
  agent_results :: "AgentType \<rightharpoonup> pyval"
  current_iteration :: int
  max_iterations :: int
  target_url :: pyval
  outbox :: "outgoing list"
  state_file :: "state_data disk_file"
  config_file :: "pydict disk_file"

definition all_agent_types :: "AgentType list" where
  "all_agent_types = [ORCHESTRATOR, CRAWLER, ANALYSIS, IMPLEMENTATION, FEEDBACK]"

text \<open>\<^verbatim>\<open>OrchestratorAgent.__init__\<close>, given the configuration file found on disk.\<close>

definition Orchestrator_init :: "pydict disk_file \<Rightarrow> OrchestratorAgent" where
  "Orchestrator_init cf =
     \<lparr> agent_type = ORCHESTRATOR, running = False, status = ''idle'', status_file = NoFile,
       config = [],
       system_state = INITIALIZING,
       agents_status = (\<lambda>t. ''idle''),
       agent_results = Map.empty,
       current_iteration = 0,
       max_iterations = 3,
       target_url = PNone,
       outbox = [],
       state_file = NoFile,
       config_file = cf \<rparr>"

text \<open>\<^verbatim>\<open>d[k] = v\<close> on a dictionary: an existing key keeps its place.\<close>

fun dict_set :: "pydict \<Rightarrow> string \<Rightarrow> pyval \<Rightarrow> pydict" where
  "dict_set [] k v = [(k, v)]"
| "dict_set ((k', v') # d) k v = (if k' = k then (k, v) # d else (k', v') # dict_set d k v)"

text \<open>\<^verbatim>\<open>load_config\<close>: the file's contents, or the empty dictionary when the file is
  missing or cannot be parsed. \<^verbatim>\<open>save_config\<close>: one write, errors logged only.\<close>

fun load_config :: "pydict disk_file \<Rightarrow> pydict" where
  "load_config (Contents c) = c"
| "load_config NoFile = []"
| "load_config Partial = []"

definition save_config :: "io \<Rightarrow> pydict \<Rightarrow> OrchestratorAgent \<Rightarrow> OrchestratorAgent" where
  "save_config w c s = s\<lparr> config_file := write_file w c (config_file s) \<rparr>"

text \<open>\<^verbatim>\<open>send_message\<close>: the queue is unbounded, the put always succeeds.\<close>

definition send_message ::
  "AgentType \<Rightarrow> MessageType \<Rightarrow> pydict \<Rightarrow> OrchestratorAgent \<Rightarrow> OrchestratorAgent" where
  "send_message dst mt pl s =
     s\<lparr> outbox := outbox s @ [\<lparr> og_destination = dst, og_type = mt, og_payload = pl \<rparr>] \<rparr>"

definition update_system_state :: "io \<Rightarrow> OrchestratorAgent \<Rightarrow> OrchestratorAgent" where
  "update_system_state w s =
     s\<lparr> state_file :=
          write_file w
            \<lparr> st_state = SystemState_value (system_state s),
              st_current_iteration = current_iteration s,
              st_max_iterations = max_iterations s,
              st_agent_states = agents_status s,
              st_target_url = target_url s \<rparr>
            (state_file s) \<rparr>"

definition start_iteration :: "io \<Rightarrow> OrchestratorAgent \<Rightarrow> OrchestratorAgent" where
  "start_iteration w s =
     (let s1 = s\<lparr> current_iteration := current_iteration s + 1 \<rparr>;
          s2 = s1\<lparr> agent_results := Map.empty \<rparr>
      in if current_iteration s2 > max_iterations s2
         then update_system_state w (s2\<lparr> system_state := COMPLETE \<rparr>)
         else
           (let s3 = update_system_state w (s2\<lparr> system_state := CRAWLING \<rparr>);
                s4 = send_message CRAWLER REQUEST
                       [(''action'', PStr ''crawl''),
                        (''url'', target_url s3),
                        (''iteration'', PInt (current_iteration s3))] s3
            in s4\<lparr> agents_status := (agents_status s4)(CRAWLER := ''running'') \<rparr>))"

definition check_system_progress :: "io \<Rightarrow> OrchestratorAgent \<Rightarrow> OrchestratorAgent" where
  "check_system_progress w s =
     (if list_ex (\<lambda>t. agents_status s t = ''error'') all_agent_types
         \<and> agents_status s CRAWLER = ''error''
      then update_system_state w (s\<lparr> system_state := ERROR_STATE \<rparr>)
      else if system_state s = CRAWLING then
        (if CRAWLER \<in> dom (agent_results s)
         then update_system_state w (s\<lparr> system_state := ANALYZING \<rparr>) else s)
      else if system_state s = ANALYZING then
        (if ANALYSIS \<in> dom (agent_results s)
         then update_system_state w (s\<lparr> system_state := IMPLEMENTING \<rparr>) else s)
      else if system_state s = IMPLEMENTING then
        (if IMPLEMENTATION \<in> dom (agent_results s)
         then update_system_state w (s\<lparr> system_state := FEEDBACK_STATE \<rparr>) else s)
      else if system_state s = FEEDBACK_STATE then
        (if FEEDBACK \<in> dom (agent_results s)
         then (if current_iteration s < max_iterations s
               then start_iteration w s
               else update_system_state w (s\<lparr> system_state := COMPLETE \<rparr>))
         else s)
      else s)"

definition response :: "Message \<Rightarrow> MessageType \<Rightarrow> pydict \<Rightarrow> outgoing option" where
  "response m mt pl =
     Some \<lparr> og_destination = source_agent m, og_type = mt, og_payload = pl \<rparr>"

text \<open>
  \<^verbatim>\<open>OrchestratorAgent.handle_message\<close>. \<open>w_cfg\<close> is the outcome of the configuration
  write and \<open>w_st\<close> that of the state-file write, should the call make them. Every path
  that does not return a response ends in the base class's \<^verbatim>\<open>handle_message\<close>, which
  logs and returns None.
\<close>

definition handle_message ::
  "io \<Rightarrow> io \<Rightarrow> OrchestratorAgent \<Rightarrow> Message \<Rightarrow> OrchestratorAgent \<times> outgoing option" where
  "handle_message w_cfg w_st s m =
     (if message_type m = NOTIFICATION then
        (if dict_get (payload m) ''status'' = PStr ''complete'' then
           (let agent = source_agent m;
                result_path = dict_get (payload m) ''result_path'';
                s1 = s\<lparr> agents_status := (agents_status s)(agent := ''idle'') \<rparr>;
                s2 = (if truthy result_path
                      then s1\<lparr> agent_results := (agent_results s1)(agent \<mapsto> result_path) \<rparr>
                      else s1);
                s3 = check_system_progress w_st s2
            in (s3, response m RESPONSE [(''status'', PStr ''acknowledged'')]))
         else (s, None))
      else if message_type m = ERROR then
        (let agent = source_agent m;
             s1 = s\<lparr> agents_status := (agents_status s)(agent := ''error'') \<rparr>;
             s2 = check_system_progress w_st s1
         in (s2, response m RESPONSE [(''status'', PStr ''error_acknowledged'')]))
      else if message_type m = REQUEST then
        (if dict_get (payload m) ''action'' = PStr ''set_url'' then
           (let url = dict_get (payload m) ''url'' in
            if truthy url then
              (let s1 = s\<lparr> target_url := url \<rparr>;
                   s2 = s1\<lparr> config := dict_set (config s1) ''website_url'' url \<rparr>;
                   s3 = save_config w_cfg (config s2) s2;
                   s4 = (if system_state s3 = COMPLETE \<or> system_state s3 = INITIALIZING
                         then start_iteration w_st s3 else s3)
               in (s4, response m RESPONSE [(''status'', PStr ''url_set''), (''url'', url)]))
            else (s, response m ERROR [(''error'', PStr ''No URL provided'')]))
         else if dict_get (payload m) ''action'' = PStr ''start'' then
           (if \<not> truthy (target_url s)
            then (s, response m ERROR [(''error'', PStr ''No target URL set'')])
            else
              (let s1 = start_iteration w_st s
               in (s1, response m RESPONSE
                         [(''status'', PStr ''started''),
                          (''iteration'', PInt (current_iteration s1))])))
         else if dict_get (payload m) ''action'' = PStr ''stop'' then
           (let s1 = update_system_state w_st (s\<lparr> system_state := COMPLETE \<rparr>)
            in (s1, response m RESPONSE [(''status'', PStr ''stopped'')]))
         else (s, None))
      else (s, None))"

text \<open>
  \<^verbatim>\<open>OrchestratorAgent.start\<close>: the base class's start, the configuration, the first
  state-file write and, with a target URL configured, the first iteration.
\<close>

definition Orchestrator_start ::
  "io \<Rightarrow> io \<Rightarrow> io \<Rightarrow> OrchestratorAgent \<Rightarrow> OrchestratorAgent" where
  "Orchestrator_start w_status w_st1 w_st2 s =
     (let s1 = start w_status s;
          s2 = s1\<lparr> config := load_config (config_file s1) \<rparr>;
          s3 = s2\<lparr> target_url := dict_get (config s2) ''website_url'' \<rparr>;
          s4 = update_system_state w_st1 (s3\<lparr> system_state := INITIALIZING \<rparr>)
      in if truthy (target_url s4) then start_iteration w_st2 s4 else s4)"

text \<open>The orchestrator taking a sequence of messages off the queue, one call of
  \<^verbatim>\<open>handle_message\<close> each, with the write outcomes of each call.\<close>

fun handle_all ::
  "OrchestratorAgent \<Rightarrow> ((io \<times> io) \<times> Message) list \<Rightarrow> OrchestratorAgent" where
  "handle_all s [] = s"
| "handle_all s (((w_cfg, w_st), m) # ms) = handle_all (fst (handle_message w_cfg w_st s m)) ms"

text \<open>A completion notice of agent \<open>src\<close>: a notification with status complete that
  names a result path, as each stage sends when it has saved its artifact.\<close>

definition is_completion :: "AgentType \<Rightarrow> Message \<Rightarrow> bool" where
  "is_completion src m \<longleftrightarrow>
     source_agent m = src \<and> message_type m = NOTIFICATION
     \<and> dict_get (payload m) ''status'' = PStr ''complete''
     \<and> truthy (dict_get (payload m) ''result_path'')"

text \<open>The stage whose completion the state machine is waiting for.\<close>

fun awaited :: "SystemState \<Rightarrow> AgentType option" where
  "awaited CRAWLING = Some CRAWLER"
| "awaited ANALYZING = Some ANALYSIS"
| "awaited IMPLEMENTING = Some IMPLEMENTATION"
| "awaited FEEDBACK_STATE = Some FEEDBACK"
| "awaited _ = None"

text \<open>A summary of the orchestrator's state machine: the state, the iteration counter,
  the iteration budget, and the crawler not being recorded as failed.\<close>

definition at_stage :: "SystemState \<Rightarrow> int \<Rightarrow> int \<Rightarrow> OrchestratorAgent \<Rightarrow> bool" where
  "at_stage st it mx s \<longleftrightarrow>
     system_state s = st \<and> current_iteration s = it \<and> max_iterations s = mx
     \<and> agents_status s CRAWLER \<noteq> ''error''"

text \<open>
  The messages the orchestrator receives, as the other agents build them with
  \<^verbatim>\<open>send_message\<close>: the completion notice of a stage (\<open>key\<close> and \<open>n\<close> are the
  stage's own count entry, such as \<^verbatim>\<open>pages_crawled\<close>), the error notice of a stage, and
  a \<^verbatim>\<open>set_url\<close> request. Identifier and timestamp are fixed here; no handler reads them.
\<close>

definition completion_notice :: "AgentType \<Rightarrow> string \<Rightarrow> int \<Rightarrow> string \<Rightarrow> Message" where
  "completion_notice src key n path =
     Message_init ''0-0'' ''1970-01-01T00:00:00'' src ORCHESTRATOR NOTIFICATION
       [(''status'', PStr ''complete''), (key, PInt n), (''result_path'', PStr path)]
       None None 5 None"

definition error_notice :: "AgentType \<Rightarrow> string \<Rightarrow> Message" where
  "error_notice src msg =
     Message_init ''0-0'' ''1970-01-01T00:00:00'' src ORCHESTRATOR ERROR
       [(''error'', PStr msg)] None None 5 None"

definition set_url_request :: "AgentType \<Rightarrow> string \<Rightarrow> Message" where
  "set_url_request src url =
     Message_init ''0-0'' ''1970-01-01T00:00:00'' src ORCHESTRATOR REQUEST
       [(''action'', PStr ''set_url''), (''url'', PStr url)] None None 5 None"

text \<open>A configuration naming a target URL, and the orchestrator started on it with an
  iteration budget of \<open>mx\<close>, every write succeeding.\<close>

definition example_config :: pydict where
  "example_config = [(''website_url'', PStr ''http://example.com'')]"

definition started :: "int \<Rightarrow> OrchestratorAgent" where
  "started mx =
     Orchestrator_start IoOk IoOk IoOk
       ((Orchestrator_init (Contents example_config))\<lparr> max_iterations := mx \<rparr>)"

text \<open>One full successful pass: the four completion notices in pipeline order.\<close>

definition full_pass :: "((io \<times> io) \<times> Message) list" where
  "full_pass =
     [((IoOk, IoOk), completion_notice CRAWLER ''pages_crawled'' 3 ''crawler/output/result.json''),
      ((IoOk, IoOk), completion_notice ANALYSIS ''pages_analyzed'' 3 ''analysis/output/result.json''),
      ((IoOk, IoOk), completion_notice IMPLEMENTATION ''files_generated'' 3
                       ''implementation/output/result.json''),
      ((IoOk, IoOk), completion_notice FEEDBACK ''score'' 2 ''feedback/output/result.json'')]"

text \<open>A full successful pass whose four completion notices reach the orchestrator with
  the analysis agent's ahead of the crawler's, as the rotation of the shared queue by the
  other agents can leave them.\<close>

definition analysis_first_pass :: "((io \<times> io) \<times> Message) list" where
  "analysis_first_pass =
     [((IoOk, IoOk), completion_notice ANALYSIS ''pages_analyzed'' 3 ''analysis/output/result.json''),
      ((IoOk, IoOk), completion_notice CRAWLER ''pages_crawled'' 3 ''crawler/output/result.json''),
      ((IoOk, IoOk), completion_notice IMPLEMENTATION ''files_generated'' 3
                       ''implementation/output/result.json''),
      ((IoOk, IoOk), completion_notice FEEDBACK ''score'' 2 ''feedback/output/result.json'')]"

text \<open>The orchestrator that, once started, has handled the analysis agent's completion
  notice before the crawler's.\<close>

definition analysis_before_crawler :: OrchestratorAgent where
  "analysis_before_crawler =
     handle_all (started 3)
       [((IoOk, IoOk),
         completion_notice ANALYSIS ''pages_analyzed'' 3 ''analysis/output/result.json''),
        ((IoOk, IoOk),
         completion_notice CRAWLER ''pages_crawled'' 3 ''crawler/output/result.json'')]"

section \<open>Operations on Python values\<close>

text \<open>
  \<^verbatim>\<open>len(v)\<close>, iteration over \<open>v\<close> (a dictionary yields its keys, a string its
  characters), \<^verbatim>\<open>v[k]\<close> with a string \<open>k\<close>, and \<^verbatim>\<open>v.get(k, default)\<close>, on any value:
  each raises where the value's class lacks the operation. A character of the model
  stands for a character of the Python string.
\<close>

fun py_len :: "pyval \<Rightarrow> pyerr + nat" where
  "py_len (PList xs) = Inr (length xs)"
| "py_len (PDict d) = Inr (length (remdups (map fst d)))"
| "py_len (PStr s) = Inr (length s)"
| "py_len _ = Inl TypeError"

fun py_iter :: "pyval \<Rightarrow> pyerr + pyval list" where
  "py_iter (PList xs) = Inr xs"
| "py_iter (PDict d) = Inr (map PStr (remdups (map fst d)))"
| "py_iter (PStr s) = Inr (map (\<lambda>c. PStr [c]) s)"
| "py_iter _ = Inl TypeError"

fun py_getitem :: "pyval \<Rightarrow> string \<Rightarrow> pyerr + pyval" where
  "py_getitem (PDict d) k = dict_item d k"
| "py_getitem _ k = Inl TypeError"

fun py_get :: "pyval \<Rightarrow> string \<Rightarrow> pyval \<Rightarrow> pyerr + pyval" where
  "py_get (PDict d) k dflt = Inr (dict_get_default d k dflt)"
| "py_get _ k dflt = Inl AttributeError"

subsection \<open>Floating-point arithmetic\<close>

text \<open>
  IEEE addition, multiplication and division on \<open>pyfloat\<close>, with the rounding \<open>rnd\<close>
  applied to the exact result of finite operands. Python raises ZeroDivisionError for a
  zero divisor; \<open>fdiv\<close> is only applied to a non-zero one.
\<close>

fun fadd :: "(rat \<Rightarrow> pyfloat) \<Rightarrow> pyfloat \<Rightarrow> pyfloat \<Rightarrow> pyfloat" where
  "fadd rnd NaN y = NaN"
| "fadd rnd x NaN = NaN"
| "fadd rnd (Fin a) (Fin b) = rnd (a + b)"
| "fadd rnd PosInf NegInf = NaN"
| "fadd rnd NegInf PosInf = NaN"
| "fadd rnd PosInf y = PosInf"
| "fadd rnd NegInf y = NegInf"
| "fadd rnd x PosInf = PosInf"
| "fadd rnd x NegInf = NegInf"

fun fmul :: "(rat \<Rightarrow> pyfloat) \<Rightarrow> pyfloat \<Rightarrow> pyfloat \<Rightarrow> pyfloat" where
  "fmul rnd NaN y = NaN"
| "fmul rnd x NaN = NaN"
| "fmul rnd (Fin a) (Fin b) = rnd (a * b)"
| "fmul rnd (Fin a) PosInf = (if a = 0 then NaN else if 0 < a then PosInf else NegInf)"
| "fmul rnd (Fin a) NegInf = (if a = 0 then NaN else if 0 < a then NegInf else PosInf)"
| "fmul rnd PosInf (Fin b) = (if b = 0 then NaN else if 0 < b then PosInf else NegInf)"
| "fmul rnd NegInf (Fin b) = (if b = 0 then NaN else if 0 < b then NegInf else PosInf)"
| "fmul rnd PosInf PosInf = PosInf"
| "fmul rnd PosInf NegInf = NegInf"
| "fmul rnd NegInf PosInf = NegInf"
| "fmul rnd NegInf NegInf = PosInf"

fun fdiv :: "(rat \<Rightarrow> pyfloat) \<Rightarrow> pyfloat \<Rightarrow> pyfloat \<Rightarrow> pyfloat" where
  "fdiv rnd NaN y = NaN"
| "fdiv rnd x NaN = NaN"
| "fdiv rnd (Fin a) (Fin b) = rnd (a / b)"
| "fdiv rnd (Fin a) y = Fin 0"
| "fdiv rnd PosInf (Fin b) = (if 0 \<le> b then PosInf else NegInf)"
| "fdiv rnd NegInf (Fin b) = (if 0 \<le> b then NegInf else PosInf)"
| "fdiv rnd x y = NaN"

text \<open>\<^verbatim>\<open>float(i)\<close> as the arithmetic operators apply it to an int operand: the nearest
  double, OverflowError when there is no finite one.\<close>

definition to_float :: "(rat \<Rightarrow> pyfloat) \<Rightarrow> int \<Rightarrow> pyerr + pyfloat" where
  "to_float rnd i = (case rnd (of_int i) of Fin q \<Rightarrow> Inr (Fin q) | _ \<Rightarrow> Inl OverflowError)"

text \<open>
  \<open>acc + v\<close> with a numeric \<open>acc\<close>, as \<^verbatim>\<open>sum\<close> applies it starting from the int 0 (in
  CPython up to 3.11, which adds doubles one by one). A bool counts as the int 0 or 1;
  an int meeting a float is converted first; any other operand raises TypeError.
\<close>

fun num_add :: "(rat \<Rightarrow> pyfloat) \<Rightarrow> pyval \<Rightarrow> pyval \<Rightarrow> pyerr + pyval" where
  "num_add rnd (PInt a) (PInt b) = Inr (PInt (a + b))"
| "num_add rnd (PInt a) (PBool b) = Inr (PInt (a + (if b then 1 else 0)))"
| "num_add rnd (PInt a) (PFloat g) =
     bind_err (to_float rnd a) (\<lambda>f. Inr (PFloat (fadd rnd f g)))"
| "num_add rnd (PFloat f) (PInt b) =
     bind_err (to_float rnd b) (\<lambda>g. Inr (PFloat (fadd rnd f g)))"
| "num_add rnd (PFloat f) (PBool b) =
     bind_err (to_float rnd (if b then 1 else 0)) (\<lambda>g. Inr (PFloat (fadd rnd f g)))"
| "num_add rnd (PFloat f) (PFloat g) = Inr (PFloat (fadd rnd f g))"
| "num_add rnd acc v = Inl TypeError"

text \<open>
  \<open>x / n\<close> for a number \<open>x\<close> and the int \<open>n\<close> that a \<^verbatim>\<open>len\<close> returned. Two ints
  give the correctly rounded quotient, OverflowError when it is not finite; a float
  dividend has \<open>n\<close> converted and is divided as a double.
\<close>

fun truediv :: "(rat \<Rightarrow> pyfloat) \<Rightarrow> pyval \<Rightarrow> nat \<Rightarrow> pyerr + pyfloat" where
  "truediv rnd (PInt a) n =
     (if n = 0 then Inl ZeroDivisionError
      else (case rnd (of_int a / of_nat n) of Fin q \<Rightarrow> Inr (Fin q) | _ \<Rightarrow> Inl OverflowError))"
| "truediv rnd (PFloat f) n =
     bind_err (to_float rnd (int n)) (\<lambda>g.
       if g = Fin 0 then Inl ZeroDivisionError else Inr (fdiv rnd f g))"
| "truediv rnd x n = Inl TypeError"

text \<open>\<open>x > k\<close> for a number \<open>x\<close> and an int literal \<open>k\<close>; Python compares a float with
  an int by value. Every comparison with NaN is false.\<close>

fun num_gt :: "pyval \<Rightarrow> int \<Rightarrow> pyerr + bool" where
  "num_gt (PInt a) k = Inr (k < a)"
| "num_gt (PBool b) k = Inr (k < (if b then 1 else 0))"
| "num_gt (PFloat (Fin q)) k = Inr (of_int k < q)"
| "num_gt (PFloat PosInf) k = Inr True"
| "num_gt (PFloat NegInf) k = Inr False"
| "num_gt (PFloat NaN) k = Inr False"
| "num_gt x k = Inl TypeError"

fun num_ge :: "pyval \<Rightarrow> int \<Rightarrow> pyerr + bool" where
  "num_ge (PInt a) k = Inr (k \<le> a)"
| "num_ge (PBool b) k = Inr (k \<le> (if b then 1 else 0))"
| "num_ge (PFloat (Fin q)) k = Inr (of_int k \<le> q)"
| "num_ge (PFloat PosInf) k = Inr True"
| "num_ge (PFloat NegInf) k = Inr False"
| "num_ge (PFloat NaN) k = Inr False"
| "num_ge x k = Inl TypeError"

section \<open>AnalysisAgent\<close>

text \<open>The analysis artifact. \<open>asset_analysis = None\<close> is the empty dictionary the entry
  is created with; \<^verbatim>\<open>common_patterns\<close> is never filled.\<close>

record page_structure =
  header_percentage :: pyval
  footer_percentage :: pyval
  nav_percentage :: pyval
  avg_sections_per_page :: pyval

record asset_analysis =
  total_css_files :: pyval
  total_js_files :: pyval
  total_images :: pyval
  avg_css_per_page :: pyval
  avg_js_per_page :: pyval
  avg_images_per_page :: pyval

record analysis =
  an_base_url :: pyval
  an_pages_analyzed :: nat
  an_page_structure :: page_structure
  an_common_patterns :: pydict
  an_asset_analysis :: "asset_analysis option"
  an_recommendations :: "string list"

text \<open>\<^verbatim>\<open>sum(1 for page in pages if page.get(key, False))\<close> over the items of the iteration.\<close>

fun count_flag :: "string \<Rightarrow> pyval list \<Rightarrow> pyerr + nat" where
  "count_flag key [] = Inr 0"
| "count_flag key (page # pages) =
     bind_err (py_get page key (PBool False)) (\<lambda>v.
     bind_err (count_flag key pages) (\<lambda>c.
       Inr (if truthy v then Suc c else c)))"

text \<open>\<^verbatim>\<open>sum(item.get(key, 0) for item in items)\<close>, from the accumulator \<open>acc\<close>.\<close>

fun sum_key :: "(rat \<Rightarrow> pyfloat) \<Rightarrow> string \<Rightarrow> pyval \<Rightarrow> pyval list \<Rightarrow> pyerr + pyval" where
  "sum_key rnd key acc [] = Inr acc"
| "sum_key rnd key acc (item # items) =
     bind_err (py_get item key (PInt 0)) (\<lambda>v.
     bind_err (num_add rnd acc v) (\<lambda>acc'.
       sum_key rnd key acc' items))"

text \<open>\<^verbatim>\<open>(count / len(pages)) * 100\<close>; 100 is a double exactly.\<close>

definition percentage_of :: "(rat \<Rightarrow> pyfloat) \<Rightarrow> nat \<Rightarrow> nat \<Rightarrow> pyerr + pyval" where
  "percentage_of rnd c n =
     bind_err (truediv rnd (PInt (int c)) n) (\<lambda>q. Inr (PFloat (fmul rnd q (Fin 100))))"

text \<open>
  Lines 574 to 583: the three counts, then the four entries of \<^verbatim>\<open>page_structure\<close>, each
  a conditional expression that tests \<^verbatim>\<open>crawl_result["pages"]\<close> before it divides.
\<close>

definition page_structure_of :: "(rat \<Rightarrow> pyfloat) \<Rightarrow> pyval \<Rightarrow> pyerr + page_structure" where
  "page_structure_of rnd pages =
     bind_err (py_iter pages) (\<lambda>items.
     bind_err (count_flag ''has_header'' items) (\<lambda>has_header_count.
     bind_err (count_flag ''has_footer'' items) (\<lambda>has_footer_count.
     bind_err (count_flag ''has_nav'' items) (\<lambda>has_nav_count.
     bind_err (if truthy pages
               then bind_err (py_len pages) (percentage_of rnd has_header_count)
               else Inr (PInt 0)) (\<lambda>hp.
     bind_err (if truthy pages
               then bind_err (py_len pages) (percentage_of rnd has_footer_count)
               else Inr (PInt 0)) (\<lambda>fp.
     bind_err (if truthy pages
               then bind_err (py_len pages) (percentage_of rnd has_nav_count)
               else Inr (PInt 0)) (\<lambda>np.
     bind_err (if truthy pages
               then bind_err (sum_key rnd ''num_sections'' (PInt 0) items) (\<lambda>total.
                    bind_err (py_len pages) (\<lambda>n.
                    bind_err (truediv rnd total n) (\<lambda>q. Inr (PFloat q))))
               else Inr (PInt 0)) (\<lambda>avg.
       Inr \<lparr> header_percentage = hp, footer_percentage = fp, nav_percentage = np,
             avg_sections_per_page = avg \<rparr>))))))))"

text \<open>Lines 586 to 598: the asset analysis, made only for a non-empty \<^verbatim>\<open>assets\<close>.\<close>

definition asset_analysis_of ::
  "(rat \<Rightarrow> pyfloat) \<Rightarrow> pyval \<Rightarrow> pyerr + asset_analysis option" where
  "asset_analysis_of rnd assets =
     (if truthy assets then
        bind_err (py_iter assets) (\<lambda>items.
        bind_err (sum_key rnd ''css_count'' (PInt 0) items) (\<lambda>total_css.
        bind_err (sum_key rnd ''js_count'' (PInt 0) items) (\<lambda>total_js.
        bind_err (sum_key rnd ''image_count'' (PInt 0) items) (\<lambda>total_img.
        bind_err (py_len assets) (\<lambda>n.
        bind_err (truediv rnd total_css n) (\<lambda>avg_css.
        bind_err (truediv rnd total_js n) (\<lambda>avg_js.
        bind_err (truediv rnd total_img n) (\<lambda>avg_img.
          Inr (Some \<lparr> total_css_files = total_css, total_js_files = total_js,
                       total_images = total_img, avg_css_per_page = PFloat avg_css,
                       avg_js_per_page = PFloat avg_js,
                       avg_images_per_page = PFloat avg_img \<rparr>)))))))))
      else Inr None)"

text \<open>
  Lines 601 to 614: the recommendations. The key \<^verbatim>\<open>"asset_analysis"\<close> is in the
  artifact from its creation, so the third test always goes on to
  \<^verbatim>\<open>analysis["asset_analysis"]["avg_js_per_page"]\<close>, a KeyError when no asset analysis
  was made.
\<close>

definition recommendations_of ::
  "page_structure \<Rightarrow> asset_analysis option \<Rightarrow> pyerr + string list" where
  "recommendations_of ps aa =
     bind_err (num_gt (header_percentage ps) 90) (\<lambda>h.
     bind_err (num_gt (footer_percentage ps) 90) (\<lambda>f.
     bind_err (case aa of None \<Rightarrow> Inl KeyError
               | Some a \<Rightarrow> num_gt (avg_js_per_page a) 5) (\<lambda>j.
       Inr ((if h then [''Implement consistent header across all pages''] else [])
          @ (if f then [''Implement consistent footer across all pages''] else [])
          @ (if j then [''Consider bundling JavaScript files to improve loading performance'']
             else [])))))"

text \<open>The \<^verbatim>\<open>try\<close> block of \<^verbatim>\<open>analyze_crawl_result\<close> up to the artifact, from the loaded
  crawl result.\<close>

definition build_analysis :: "(rat \<Rightarrow> pyfloat) \<Rightarrow> pyval \<Rightarrow> pyerr + analysis" where
  "build_analysis rnd crawl_result =
     bind_err (py_getitem crawl_result ''base_url'') (\<lambda>base_url.
     bind_err (py_getitem crawl_result ''pages'') (\<lambda>pages.
     bind_err (py_len pages) (\<lambda>n.
     bind_err (page_structure_of rnd pages) (\<lambda>ps.
     bind_err (py_getitem crawl_result ''assets'') (\<lambda>assets.
     bind_err (asset_analysis_of rnd assets) (\<lambda>aa.
     bind_err (recommendations_of ps aa) (\<lambda>recs.
       Inr \<lparr> an_base_url = base_url, an_pages_analyzed = n, an_page_structure = ps,
             an_common_patterns = [], an_asset_analysis = aa,
             an_recommendations = recs \<rparr>)))))))"

text \<open>
  \<^verbatim>\<open>AnalysisAgent.analyze_crawl_result\<close>. \<open>loaded\<close> is what opening and parsing the
  crawl-result file gives. The result is \<open>Inr\<close> of the artifact that is saved and
  announced to the orchestrator and the implementation agent, or \<open>Inl\<close> of the
  exception that the handler catches, reports as an error notice and records in the
  agent's status; nothing is saved then.
\<close>

definition analyze_crawl_result :: "(rat \<Rightarrow> pyfloat) \<Rightarrow> pyerr + pyval \<Rightarrow> pyerr + analysis" where
  "analyze_crawl_result rnd loaded = bind_err loaded (build_analysis rnd)"

text \<open>The claim's reading of the percentages: the number of pages whose flag is true,
  divided by the number of pages, times 100, in double arithmetic.\<close>

definition flag_true :: "string \<Rightarrow> pyval \<Rightarrow> bool" where
  "flag_true key page =
     (case page of PDict d \<Rightarrow> truthy (dict_get_default d key (PBool False)) | _ \<Rightarrow> False)"

definition percentage_spec :: "(rat \<Rightarrow> pyfloat) \<Rightarrow> string \<Rightarrow> pyval list \<Rightarrow> pyval" where
  "percentage_spec rnd key pages =
     PFloat (fmul rnd (rnd (of_nat (length (filter (flag_true key) pages))
                            / of_nat (length pages)))
                  (Fin 100))"

text \<open>A crawl result of three pages and one asset record, and exact arithmetic as the
  rounding, for the examples.\<close>

definition example_page :: "bool \<Rightarrow> bool \<Rightarrow> bool \<Rightarrow> int \<Rightarrow> pyval" where
  "example_page h f n k =
     PDict [(''url'', PStr ''http://example.com''), (''title'', PStr ''Example''),
            (''has_header'', PBool h), (''has_footer'', PBool f), (''has_nav'', PBool n),
            (''num_sections'', PInt k), (''meta_tags'', PList [])]"

definition example_pages :: "pyval list" where
  "example_pages =
     [example_page True True False 2, example_page True False False 1,
      example_page True True False 0]"

definition example_crawl :: "pyval list \<Rightarrow> pyval list \<Rightarrow> pyval" where
  "example_crawl pages assets =
     PDict [(''base_url'', PStr ''http://example.com''), (''pages'', PList pages),
            (''assets'', PList assets)]"

definition example_asset :: pyval where
  "example_asset =
     PDict [(''page_url'', PStr ''http://example.com''), (''css_count'', PInt 2),
            (''js_count'', PInt 1), (''image_count'', PInt 4)]"

section \<open>FeedbackAgent\<close>

text \<open>The decimal numeral of a natural number, as an f-string prints it.\<close>

fun str_nat :: "nat \<Rightarrow> string" where
  "str_nat n =
     (if n < 10 then [char_of (48 + n)]
      else str_nat (n div 10) @ [char_of (48 + n mod 10)])"

declare str_nat.simps [simp del]

text \<open>The feedback artifact.\<close>

record feedback =
  fb_implementation_path :: string
  fb_score :: pyval
  fb_strengths :: "string list"
  fb_weaknesses :: "string list"
  fb_suggestions :: "string list"
  fb_overall_assessment :: string

definition feedback_init :: "string \<Rightarrow> feedback" where
  "feedback_init path =
     \<lparr> fb_implementation_path = path, fb_score = PInt 0, fb_strengths = [],
       fb_weaknesses = [], fb_suggestions = [], fb_overall_assessment = [] \<rparr>"

text \<open>\<^verbatim>\<open>feedback["score"] += x\<close>.\<close>

definition add_score :: "(rat \<Rightarrow> pyfloat) \<Rightarrow> pyval \<Rightarrow> feedback \<Rightarrow> pyerr + feedback" where
  "add_score rnd x fb = bind_err (num_add rnd (fb_score fb) x) (\<lambda>s. Inr (fb\<lparr> fb_score := s \<rparr>))"

text \<open>Lines 1301 to 1305: were the three files generated.\<close>

definition check_files :: "(rat \<Rightarrow> pyfloat) \<Rightarrow> pyval \<Rightarrow> feedback \<Rightarrow> pyerr + feedback" where
  "check_files rnd implementation fb =
     bind_err (py_getitem implementation ''files'') (\<lambda>files.
     bind_err (py_len files) (\<lambda>n.
       if 3 \<le> n then
         add_score rnd (PInt 1)
           (fb\<lparr> fb_strengths := fb_strengths fb
                   @ [''Generated all required files (HTML, CSS, JavaScript)''] \<rparr>)
       else Inr (fb\<lparr> fb_weaknesses := fb_weaknesses fb @ [''Missing some required files''] \<rparr>)))"

text \<open>Lines 1308 to 1312: did the tests pass. \<^verbatim>\<open>x is False\<close> holds of the value False
  alone.\<close>

definition tests_passed :: "pyval \<Rightarrow> pyerr + pyval" where
  "tests_passed implementation =
     bind_err (py_get implementation ''test_results'' (PDict [])) (\<lambda>tr.
       py_get tr ''tests_passed'' PNone)"

definition check_tests :: "(rat \<Rightarrow> pyfloat) \<Rightarrow> pyval \<Rightarrow> feedback \<Rightarrow> pyerr + feedback" where
  "check_tests rnd implementation fb =
     bind_err (tests_passed implementation) (\<lambda>tp.
       if truthy tp then
         add_score rnd (PInt 1)
           (fb\<lparr> fb_strengths := fb_strengths fb @ [''Implementation passes all tests''] \<rparr>)
       else
         bind_err (tests_passed implementation) (\<lambda>tp'.
           if tp' = PBool False
           then Inr (fb\<lparr> fb_weaknesses := fb_weaknesses fb
                             @ [''Implementation fails some tests''] \<rparr>)
           else Inr fb))"

text \<open>Lines 1315 to 1326: the loop counts every recommendation as followed, then the
  count is compared with the length of the same list.\<close>

definition check_recommendations ::
  "(rat \<Rightarrow> pyfloat) \<Rightarrow> pyval \<Rightarrow> feedback \<Rightarrow> pyerr + feedback" where
  "check_recommendations rnd analysis fb =
     bind_err (py_get analysis ''recommendations'' (PList [])) (\<lambda>recs.
     bind_err (py_iter recs) (\<lambda>items.
     (let recommendations_followed = length items in
     bind_err (py_get analysis ''recommendations'' (PList [])) (\<lambda>recs'.
     bind_err (py_len recs') (\<lambda>m.
       if recommendations_followed = m then
         add_score rnd (PInt 1)
           (fb\<lparr> fb_strengths := fb_strengths fb
                   @ [''Implementation follows all recommendations from analysis''] \<rparr>)
       else if 0 < recommendations_followed then
         add_score rnd (PFloat (Fin (1 / 2)))
           (fb\<lparr> fb_strengths := fb_strengths fb
                   @ [''Implementation follows '' @ str_nat recommendations_followed
                      @ '' recommendations from analysis''] \<rparr>)
       else Inr fb)))))"

definition add_suggestions :: "feedback \<Rightarrow> feedback" where
  "add_suggestions fb =
     fb\<lparr> fb_suggestions := fb_suggestions fb
          @ [''Add more responsive design features'',
             ''Implement accessibility improvements'',
             ''Consider adding animation effects for better user experience''] \<rparr>"

text \<open>Lines 1334 to 1339: the overall assessment, by the band of the score.\<close>

definition assess :: "feedback \<Rightarrow> pyerr + feedback" where
  "assess fb =
     bind_err (num_ge (fb_score fb) 2) (\<lambda>good.
       if good then
         Inr (fb\<lparr> fb_overall_assessment :=
                    ''Good implementation that meets most requirements'' \<rparr>)
       else
         bind_err (num_ge (fb_score fb) 1) (\<lambda>acceptable.
           if acceptable then
             Inr (fb\<lparr> fb_overall_assessment :=
                        ''Acceptable implementation with room for improvement'' \<rparr>)
           else
             Inr (fb\<lparr> fb_overall_assessment :=
                        ''Implementation needs significant improvement'' \<rparr>)))"

text \<open>
  \<^verbatim>\<open>FeedbackAgent.evaluate_implementation\<close>: the three files are loaded in turn (the
  crawl result is loaded and not used), then the rubric is applied. As for the analysis,
  \<open>Inr\<close> is the artifact saved and announced, \<open>Inl\<close> the exception caught.
\<close>

definition evaluate_implementation ::
  "(rat \<Rightarrow> pyfloat) \<Rightarrow> string \<Rightarrow> pyerr + pyval \<Rightarrow> pyerr + pyval \<Rightarrow> pyerr + pyval \<Rightarrow>
   pyerr + feedback" where
  "evaluate_implementation rnd path loaded_impl loaded_analysis loaded_crawl =
     bind_err loaded_impl (\<lambda>implementation.
     bind_err loaded_analysis (\<lambda>analysis.
     bind_err loaded_crawl (\<lambda>crawl_result.
     bind_err (check_files rnd implementation (feedback_init path)) (\<lambda>fb1.
     bind_err (check_tests rnd implementation fb1) (\<lambda>fb2.
     bind_err (check_recommendations rnd analysis fb2) (\<lambda>fb3.
       assess (add_suggestions fb3)))))))"

text \<open>The rubric and the bands in the claim's words: one point for at least three
  files, one for passed tests, one for the recommendations, all of which count as
  followed.\<close>

definition rubric :: "nat \<Rightarrow> pyval \<Rightarrow> int" where
  "rubric file_count passed =
     (if 3 \<le> file_count then 1 else 0) + (if truthy passed then 1 else 0) + 1"

definition band :: "int \<Rightarrow> string" where
  "band score =
     (if 2 \<le> score then ''Good implementation that meets most requirements''
      else if 1 \<le> score then ''Acceptable implementation with room for improvement''
      else ''Implementation needs significant improvement'')"

text \<open>The claim's reading of the test point: what the implementation result reports
  under \<^verbatim>\<open>test_results\<close>, \<^verbatim>\<open>tests_passed\<close>, None when either entry is missing.\<close>

definition reported_tests_passed :: "pydict \<Rightarrow> pyval" where
  "reported_tests_passed d =
     (case map_of d ''test_results'' of
        Some (PDict t) \<Rightarrow> (case map_of t ''tests_passed'' of Some v \<Rightarrow> v | None \<Rightarrow> PNone)
      | _ \<Rightarrow> PNone)"

text \<open>The implementation result as \<^verbatim>\<open>implement_website\<close> saves it, with the given file
  entries and test verdict, and an analysis artifact as read back from its file, for the
  examples.\<close>

definition example_file :: "string \<Rightarrow> string \<Rightarrow> string \<Rightarrow> pyval" where
  "example_file path type purpose =
     PDict [(''path'', PStr path), (''type'', PStr type), (''purpose'', PStr purpose)]"

definition three_files :: "pyval list" where
  "three_files =
     [example_file ''implementation.py'' ''python'' ''Main implementation'',
      example_file ''template.html'' ''html'' ''HTML template'',
      example_file ''styles.css'' ''css'' ''Stylesheet'']"

definition example_implementation :: "pyval list \<Rightarrow> pyval \<Rightarrow> pyval" where
  "example_implementation files passed =
     PDict [(''files'', PList files),
            (''base_url'', PStr ''http://example.com''),
            (''pages_implemented'', PInt 3),
            (''test_results'', PDict [(''tests_passed'', passed), (''output'', PNone)])]"

definition example_analysis_file :: pyval where
  "example_analysis_file =
     PDict [(''base_url'', PStr ''http://example.com''), (''pages_analyzed'', PInt 3),
            (''recommendations'', PList [PStr ''Implement consistent header across all pages''])]"

text \<open>The evaluation of such an implementation result against the example analysis.\<close>

definition example_feedback :: "pyval list \<Rightarrow> pyval \<Rightarrow> pyerr + feedback" where
  "example_feedback files passed =
     evaluate_implementation Fin ''implementation/output/result.json''
       (Inr (example_implementation files passed)) (Inr example_analysis_file)
       (Inr (example_crawl example_pages [example_asset]))"

section \<open>ForeverVMSandbox\<close>

text \<open>
  What \<^verbatim>\<open>subprocess.run\<close> does with the code within the timeout: the child exits with
  its two output streams captured, or the timeout expires, or the call raises another
  exception (whose \<^verbatim>\<open>str\<close> is given). That is for the operating system to decide; the
  model takes it as the function \<open>os\<close> of the code and the timeout.
\<close>

datatype subprocess_outcome = Exited string string | TimeoutExpired | Raised string

text \<open>\<^verbatim>\<open>ForeverVMMachine.run\<close>: every outcome becomes a dictionary; nothing is raised.\<close>

fun machine_run :: "subprocess_outcome \<Rightarrow> pyval" where
  "machine_run (Exited out err) =
     PDict [(''output'', PStr (out @ err)),
            (''return_value'', PStr ''Stub sandbox simulation result''),
            (''state'', PStr ''complete'')]"
| "machine_run TimeoutExpired =
     PDict [(''output'', PStr ''Code execution timed out''),
            (''return_value'', PNone),
            (''state'', PStr ''timeout'')]"
| "machine_run (Raised msg) =
     PDict [(''output'', PStr (''Error executing code: '' @ msg)),
            (''return_value'', PNone),
            (''state'', PStr ''error'')]"

text \<open>
  Attribute access \<^verbatim>\<open>v.name\<close> on a value of the model, for a name that is not a method
  of its class (\<^verbatim>\<open>output\<close> and \<^verbatim>\<open>return_value\<close> are methods of none). The values are
  plain data without attributes of their own, so the access raises AttributeError;
  \<open>Inl\<close> carries the \<^verbatim>\<open>str\<close> of the exception.
\<close>

fun type_name :: "pyval \<Rightarrow> string" where
  "type_name PNone = ''NoneType''"
| "type_name (PBool b) = ''bool''"
| "type_name (PInt i) = ''int''"
| "type_name (PFloat f) = ''float''"
| "type_name (PStr s) = ''str''"
| "type_name (PList xs) = ''list''"
| "type_name (PDict d) = ''dict''"

definition py_getattr :: "pyval \<Rightarrow> string \<Rightarrow> string + pyval" where
  "py_getattr v name =
     Inl ([CHR 0x27] @ type_name v @ [CHR 0x27] @ '' object has no attribute ''
          @ [CHR 0x27] @ name @ [CHR 0x27])"

text \<open>The exception that \<^verbatim>\<open>execute_code\<close> lets out.\<close>

datatype execute_error = RuntimeError

text \<open>
  \<^verbatim>\<open>ForeverVMSandbox.execute_code\<close>. \<open>machine\<close> tells whether a machine has been created.
  The \<^verbatim>\<open>try\<close> block runs the code and reads \<^verbatim>\<open>result.output\<close> and
  \<^verbatim>\<open>result.return_value\<close> while it builds the dictionary to return; the handler turns
  any exception into the failure dictionary.
\<close>

definition execute_code ::
  "bool \<Rightarrow> (string \<Rightarrow> int \<Rightarrow> subprocess_outcome) \<Rightarrow> string \<Rightarrow> int \<Rightarrow> execute_error + pydict" where
  "execute_code machine os code timeout =
     (if \<not> machine then Inl RuntimeError
      else
        (let result = machine_run (os code timeout) in
         case py_getattr result ''output'' of
           Inl e \<Rightarrow>
             Inr [(''success'', PBool False), (''output'', PNone), (''return_value'', PNone),
                  (''error'', PStr e)]
         | Inr output \<Rightarrow>
             (case py_getattr result ''return_value'' of
                Inl e \<Rightarrow>
                  Inr [(''success'', PBool False), (''output'', PNone),
                       (''return_value'', PNone), (''error'', PStr e)]
              | Inr return_value \<Rightarrow>
                  Inr [(''success'', PBool True), (''output'', output),
                       (''return_value'', return_value), (''error'', PNone)])))"

text \<open>An operating system under which the code runs into the timeout, and one under
  which it prints a line and exits.\<close>

definition os_timeout :: "string \<Rightarrow> int \<Rightarrow> subprocess_outcome" where
  "os_timeout code timeout = TimeoutExpired"

definition os_prints :: "string \<Rightarrow> int \<Rightarrow> subprocess_outcome" where
  "os_prints code timeout = Exited ''done'' []"

section \<open>Properties of Message\<close>

lemma AgentType_of_value: "AgentType_of (PStr (AgentType_value a)) = Inr a"
  by (cases a) (simp_all add: AgentType_of_def)

lemma MessageType_of_value: "MessageType_of (PStr (MessageType_value t)) = Inr t"
  by (cases t) (simp_all add: MessageType_of_def)

lemma Message_init_invariant:
  assumes "fresh_id \<noteq> []" and "now \<noteq> []"
  shows "message_id (Message_init fresh_id now src dst mt pl mid ts prio meta) \<noteq> []"
    and "timestamp (Message_init fresh_id now src dst mt pl mid ts prio meta) \<noteq> []"
  using assms by (simp_all add: Message_init_def split: option.split)

text \<open>
  Claim C2. Every message whose identifier and timestamp are non-empty (which the
  constructor guarantees, see \<open>Message_init_invariant\<close>) is rebuilt field for field by
  \<open>from_dict\<close> from its \<open>to_dict\<close> image, the enum fields travelling as their string
  values. The identifier and clock reading that the second construction would generate
  are not used.
\<close>

theorem from_dict_to_dict:
  assumes "message_id m \<noteq> []" and "timestamp m \<noteq> []"
  shows "from_dict fresh_id now (to_dict m) = Inr m"
  using assms
  by (simp add: from_dict_def to_dict_def dict_item_def bind_err_def
      AgentType_of_value MessageType_of_value as_str_def as_int_def as_dict_def
      as_opt_dict_def Message_init_def)

theorem from_dict_to_dict_witness:
  "from_dict ''9-9'' ''2026-01-01T00:00:01''
     (to_dict (Message_init ''1700000000-140'' ''2025-01-01T00:00:00'' CRAWLER ORCHESTRATOR
        NOTIFICATION [(''status'', PStr ''complete''), (''pages_crawled'', PInt 3)]
        None None 5 None))
   = Inr (Message_init ''1700000000-140'' ''2025-01-01T00:00:00'' CRAWLER ORCHESTRATOR
        NOTIFICATION [(''status'', PStr ''complete''), (''pages_crawled'', PInt 3)]
        None None 5 None)"
  by (rule from_dict_to_dict) (simp_all add: Message_init_def)

section \<open>Properties of Agent\<close>

lemma stop_fields:
  "status (stop w a) = ''idle''" "running (stop w a) = False"
  "status_file (stop IoOk a) =
     Contents \<lparr> sd_status = ''idle'', sd_agent_type = AgentType_value (agent_type a),
                sd_error = None \<rparr>"
  by (simp_all add: stop_def update_status_def Let_def)

lemma run_except_file:
  "status_file (run_except IoOk e a) =
     Contents \<lparr> sd_status = ''error'', sd_agent_type = AgentType_value (agent_type a),
                sd_error = (if e = [] then None else Some e) \<rparr>"
  "status (run_except w e a) = ''error''"
  "agent_type (run_except w e a) = agent_type a"
  by (simp_all add: run_except_def update_status_def Let_def)

text \<open>
  Claim C10, as amended. A call with a non-empty error string whose write succeeds
  leaves in the file the status held before the call, with the error message as a
  separate entry, and sets the in-memory status to error only after the record is
  composed; so the file written by the call shows error only when the agent already was
  in error.
\<close>

theorem update_status_writes_old_status:
  "e \<noteq> [] \<Longrightarrow>
     status_file (update_status IoOk (Some e) a) =
       Contents \<lparr> sd_status = status a, sd_agent_type = AgentType_value (agent_type a),
                  sd_error = Some e \<rparr>
     \<and> status (update_status IoOk (Some e) a) = ''error''"
  by (simp add: update_status_def Let_def)

theorem update_status_writes_old_status_witness:
  "status_file (update_status IoOk (Some ''boom'') (start IoOk (Agent_init CRAWLER))) =
     Contents \<lparr> sd_status = ''running'', sd_agent_type = ''crawler'', sd_error = Some ''boom'' \<rparr>
   \<and> status (update_status IoOk (Some ''boom'') (start IoOk (Agent_init CRAWLER))) = ''error''"
  using update_status_writes_old_status [of "''boom''" "start IoOk (Agent_init CRAWLER)"]
  by (simp add: start_def update_status_def Agent_init_def Let_def)

text \<open>
  The claim as first stated, for every argument other than None, fails at the empty
  string (the \<^verbatim>\<open>str\<close> of an exception raised without arguments): no error entry is
  written and the in-memory status stays running.
\<close>

theorem update_status_empty_error_counterexample:
  "status_file (update_status IoOk (Some []) (start IoOk (Agent_init CRAWLER))) =
     Contents \<lparr> sd_status = ''running'', sd_agent_type = ''crawler'', sd_error = None \<rparr>
   \<and> status (update_status IoOk (Some []) (start IoOk (Agent_init CRAWLER))) = ''running''"
  by (simp add: start_def update_status_def Agent_init_def Let_def)

lemma run_loop_exception:
  assumes "running (snd s)" and "loop_pass env handle do_work k s = (Some e, s')"
  shows "run_loop (Suc fuel) env handle do_work k s = Some (Some e, s')"
  using assms by simp

text \<open>
  Claim C3. When an exception escapes the start or a pass of the loop, the loop is left
  at once (\<open>run_loop_exception\<close>) and the handler writes status error with the message
  (\<open>run_except_file\<close>). The claim's last part does not hold of the code: the \<^verbatim>\<open>finally\<close>
  clause then calls \<^verbatim>\<open>stop\<close>, which sets the status to idle and rewrites the file, so
  that once \<^verbatim>\<open>run\<close> has returned the persisted status is idle and the error entry is
  gone.
\<close>

theorem run_exception_ends_idle:
  assumes "run_try fuel startf env handle do_work s = Some (Some e, s')"
  shows "\<exists>r. run fuel w_err IoOk startf env handle do_work s = Some (fst s', r)
           \<and> status_file r =
               Contents \<lparr> sd_status = ''idle'',
                          sd_agent_type = AgentType_value (agent_type (snd s')),
                          sd_error = None \<rparr>
           \<and> status r = ''idle''"
  using assms by (simp add: run_def stop_fields run_except_file)

theorem run_exception_ends_idle_witness:
  "run_try 2 (Agent_start IoOk) quiet_env (raising_handler ''boom'') Agent_do_work
       ([analyze_request], Agent_init ANALYSIS)
     = Some (Some ''boom'', ([], start IoOk (Agent_init ANALYSIS)))
   \<and> (\<exists>r. run 2 IoOk IoOk (Agent_start IoOk) quiet_env (raising_handler ''boom'') Agent_do_work
              ([analyze_request], Agent_init ANALYSIS) = Some ([], r)
         \<and> status_file r =
             Contents \<lparr> sd_status = ''idle'', sd_agent_type = ''analysis'', sd_error = None \<rparr>
         \<and> status r = ''idle'')"
proof -
  have r: "running (start IoOk (Agent_init ANALYSIS))"
    and t: "agent_type (start IoOk (Agent_init ANALYSIS)) = ANALYSIS"
    by (simp_all add: start_def update_status_def Agent_init_def Let_def)
  have d: "destination_agent analyze_request = ANALYSIS"
    by (simp add: analyze_request_def Message_init_def)
  have h: "run_try 2 (Agent_start IoOk) quiet_env (raising_handler ''boom'') Agent_do_work
             ([analyze_request], Agent_init ANALYSIS)
           = Some (Some ''boom'', ([], start IoOk (Agent_init ANALYSIS)))"
    by (simp add: run_try_def Agent_start_def numeral_2_eq_2 r t d loop_pass_def
        raising_handler_def)
  show ?thesis
    using h run_exception_ends_idle [OF h, of IoOk] by (simp add: t)
qed

section \<open>Properties of the orchestrator\<close>


lemma uss_simps [simp]:
  "system_state (update_system_state w s) = system_state s"
  "current_iteration (update_system_state w s) = current_iteration s"
  "max_iterations (update_system_state w s) = max_iterations s"
  "agents_status (update_system_state w s) = agents_status s"
  "agent_results (update_system_state w s) = agent_results s"
  "target_url (update_system_state w s) = target_url s"
  "outbox (update_system_state w s) = outbox s"
  by (simp_all add: update_system_state_def)

lemma start_iteration_fields:
  "current_iteration (start_iteration w s) = current_iteration s + 1"
  "max_iterations (start_iteration w s) = max_iterations s"
  "system_state (start_iteration w s) =
     (if current_iteration s + 1 > max_iterations s then COMPLETE else CRAWLING)"
  "agent_results (start_iteration w s) = Map.empty"
  "target_url (start_iteration w s) = target_url s"
  "agents_status (start_iteration w s) CRAWLER = ''error'' \<longleftrightarrow>
     (current_iteration s + 1 > max_iterations s \<and> agents_status s CRAWLER = ''error'')"
  by (simp_all add: start_iteration_def Let_def send_message_def)

lemma check_progress_lower:
  "n \<le> current_iteration s \<Longrightarrow> n \<le> current_iteration (check_system_progress w s)"
  by (simp add: check_system_progress_def start_iteration_fields)

lemma check_progress_upper:
  "current_iteration s \<le> n \<Longrightarrow> current_iteration (check_system_progress w s) \<le> n + 1"
  by (simp add: check_system_progress_def start_iteration_fields)

lemma check_progress_max:
  "max_iterations (check_system_progress w s) = max_iterations s"
  by (simp add: check_system_progress_def start_iteration_fields)

lemma handle_message_lower:
  "current_iteration s \<le> current_iteration (fst (handle_message wc ws s m))"
  by (simp add: handle_message_def Let_def start_iteration_fields save_config_def
      check_progress_lower)

lemma handle_message_upper:
  "current_iteration (fst (handle_message wc ws s m)) \<le> current_iteration s + 1"
  by (simp add: handle_message_def Let_def start_iteration_fields save_config_def
      check_progress_upper)


lemma handle_completion:
  assumes "is_completion src m"
  shows "fst (handle_message wc ws s m) =
     check_system_progress ws
       (s\<lparr> agents_status := (agents_status s)(src := ''idle''),
           agent_results := (agent_results s)(src \<mapsto> dict_get (payload m) ''result_path'') \<rparr>)"
  using assms by (simp add: is_completion_def handle_message_def Let_def)

lemma check_progress_running:
  assumes "agents_status s CRAWLER \<noteq> ''error''"
  shows "check_system_progress w s =
     (if system_state s = CRAWLING then
        (if CRAWLER \<in> dom (agent_results s)
         then update_system_state w (s\<lparr> system_state := ANALYZING \<rparr>) else s)
      else if system_state s = ANALYZING then
        (if ANALYSIS \<in> dom (agent_results s)
         then update_system_state w (s\<lparr> system_state := IMPLEMENTING \<rparr>) else s)
      else if system_state s = IMPLEMENTING then
        (if IMPLEMENTATION \<in> dom (agent_results s)
         then update_system_state w (s\<lparr> system_state := FEEDBACK_STATE \<rparr>) else s)
      else if system_state s = FEEDBACK_STATE then
        (if FEEDBACK \<in> dom (agent_results s)
         then (if current_iteration s < max_iterations s
               then start_iteration w s
               else update_system_state w (s\<lparr> system_state := COMPLETE \<rparr>))
         else s)
      else s)"
  using assms unfolding check_system_progress_def by simp

lemma step_crawler:
  assumes "is_completion CRAWLER m" and "at_stage CRAWLING i mx s"
  shows "at_stage ANALYZING i mx (fst (handle_message wc ws s m))"
  using assms(2)
  by (simp add: handle_completion [OF assms(1)] check_progress_running at_stage_def)

lemma step_analysis:
  assumes "is_completion ANALYSIS m" and "at_stage ANALYZING i mx s"
  shows "at_stage IMPLEMENTING i mx (fst (handle_message wc ws s m))"
  using assms(2)
  by (simp add: handle_completion [OF assms(1)] check_progress_running at_stage_def)

lemma step_implementation:
  assumes "is_completion IMPLEMENTATION m" and "at_stage IMPLEMENTING i mx s"
  shows "at_stage FEEDBACK_STATE i mx (fst (handle_message wc ws s m))"
  using assms(2)
  by (simp add: handle_completion [OF assms(1)] check_progress_running at_stage_def)

lemma step_feedback_next:
  assumes "is_completion FEEDBACK m" and "at_stage FEEDBACK_STATE i mx s" and "i < mx"
  shows "at_stage CRAWLING (i + 1) mx (fst (handle_message wc ws s m))"
  using assms(2,3)
  by (simp add: handle_completion [OF assms(1)] check_progress_running at_stage_def
      start_iteration_fields)

lemma step_feedback_last:
  assumes "is_completion FEEDBACK m" and "at_stage FEEDBACK_STATE i mx s" and "\<not> i < mx"
  shows "at_stage COMPLETE i mx (fst (handle_message wc ws s m))"
  using assms(2,3)
  by (simp add: handle_completion [OF assms(1)] check_progress_running at_stage_def)

lemma Orchestrator_start_configured:
  assumes "truthy (dict_get cfg ''website_url'')" and "0 < mx"
  shows "at_stage CRAWLING 1 mx
           (Orchestrator_start w1 w2 w3 ((Orchestrator_init (Contents cfg))\<lparr> max_iterations := mx \<rparr>))"
  using assms
  by (simp add: Orchestrator_start_def Let_def start_def update_status_def Orchestrator_init_def
      at_stage_def start_iteration_fields)

lemma one_pass:
  assumes "is_completion CRAWLER c" "is_completion ANALYSIS a"
    "is_completion IMPLEMENTATION i" "is_completion FEEDBACK f"
    and "at_stage CRAWLING n mx s"
  shows "at_stage (if n < mx then CRAWLING else COMPLETE) (if n < mx then n + 1 else n) mx
           (handle_all s [(v1, c), (v2, a), (v3, i), (v4, f)])"
proof -
  obtain c1 c2 where v1: "v1 = (c1, c2)" by (cases v1)
  obtain a1 a2 where v2: "v2 = (a1, a2)" by (cases v2)
  obtain i1 i2 where v3: "v3 = (i1, i2)" by (cases v3)
  obtain f1 f2 where v4: "v4 = (f1, f2)" by (cases v4)
  let ?s1 = "fst (handle_message c1 c2 s c)"
  let ?s2 = "fst (handle_message a1 a2 ?s1 a)"
  let ?s3 = "fst (handle_message i1 i2 ?s2 i)"
  have 1: "at_stage ANALYZING n mx ?s1" by (rule step_crawler [OF assms(1,5)])
  have 2: "at_stage IMPLEMENTING n mx ?s2" by (rule step_analysis [OF assms(2) 1])
  have 3: "at_stage FEEDBACK_STATE n mx ?s3" by (rule step_implementation [OF assms(3) 2])
  show ?thesis
    using step_feedback_next [OF assms(4) 3] step_feedback_last [OF assms(4) 3]
    by (simp add: v1 v2 v3 v4)
qed

lemma handle_all_append: "handle_all s (xs @ ys) = handle_all (handle_all s xs) ys"
  by (induction xs arbitrary: s) auto


lemma is_completion_notice:
  "key \<noteq> ''result_path'' \<Longrightarrow> path \<noteq> [] \<Longrightarrow>
     is_completion src (completion_notice src key n path)"
  by (simp add: is_completion_def completion_notice_def Message_init_def dict_get_def)

lemma two_passes_at_stage:
  assumes url: "truthy (dict_get cfg ''website_url'')"
    and p1: "is_completion CRAWLER c1" "is_completion ANALYSIS a1"
            "is_completion IMPLEMENTATION i1" "is_completion FEEDBACK f1"
    and p2: "is_completion CRAWLER c2" "is_completion ANALYSIS a2"
            "is_completion IMPLEMENTATION i2" "is_completion FEEDBACK f2"
  shows "at_stage COMPLETE 2 2
           (handle_all
              (Orchestrator_start w1 w2 w3
                 ((Orchestrator_init (Contents cfg))\<lparr> max_iterations := 2 \<rparr>))
              ([(v1, c1), (v2, a1), (v3, i1), (v4, f1)] @ [(v5, c2), (v6, a2), (v7, i2), (v8, f2)]))"
proof -
  let ?s0 = "Orchestrator_start w1 w2 w3
               ((Orchestrator_init (Contents cfg))\<lparr> max_iterations := 2 \<rparr>)"
  have 0: "at_stage CRAWLING 1 2 ?s0"
    by (rule Orchestrator_start_configured [OF url]) simp
  have 1: "at_stage CRAWLING 2 2 (handle_all ?s0 [(v1, c1), (v2, a1), (v3, i1), (v4, f1)])"
    using one_pass [OF p1 0, of v1 v2 v3 v4] by simp
  have 2: "at_stage COMPLETE 2 2
             (handle_all (handle_all ?s0 [(v1, c1), (v2, a1), (v3, i1), (v4, f1)])
                [(v5, c2), (v6, a2), (v7, i2), (v8, f2)])"
    using one_pass [OF p2 1, of v5 v6 v7 v8] by simp
  show ?thesis
    unfolding handle_all_append by (rule 2)
qed

lemma Orchestrator_start_lower:
  "current_iteration s \<le> current_iteration (Orchestrator_start w1 w2 w3 s)"
  by (simp add: Orchestrator_start_def Let_def start_iteration_fields start_def update_status_def)

lemma handle_all_lower: "current_iteration s \<le> current_iteration (handle_all s ms)"
proof (induction ms arbitrary: s)
  case Nil
  then show ?case by simp
next
  case (Cons x ms)
  obtain wc ws m where x: "x = ((wc, ws), m)" by (metis surj_pair)
  have "current_iteration s \<le> current_iteration (fst (handle_message wc ws s m))"
    by (rule handle_message_lower)
  also have "\<dots> \<le> current_iteration (handle_all (fst (handle_message wc ws s m)) ms)"
    by (rule Cons.IH)
  finally show ?case by (simp add: x)
qed

text \<open>
  Claim C4, as amended. With an iteration budget of 2 and a target URL configured, the
  orchestrator that has started and then handled the completion notices of two full
  passes in pipeline order (crawler, analysis, implementation, feedback, twice) is in
  state complete with
  \<open>current_iteration = 2\<close>, whatever the outcomes of the file writes; no later message
  brings the counter below 2, and no operation of the orchestrator lowers it:
  \<open>start_iteration\<close> adds one, handling a message or checking the progress keeps it
  or adds one, and starting never decreases it.
\<close>

theorem two_passes_reach_complete:
  assumes url: "truthy (dict_get cfg ''website_url'')"
    and p1: "is_completion CRAWLER c1" "is_completion ANALYSIS a1"
            "is_completion IMPLEMENTATION i1" "is_completion FEEDBACK f1"
    and p2: "is_completion CRAWLER c2" "is_completion ANALYSIS a2"
            "is_completion IMPLEMENTATION i2" "is_completion FEEDBACK f2"
  shows "(let final =
            handle_all
              (Orchestrator_start wa wb wd
                 ((Orchestrator_init (Contents cfg))\<lparr> max_iterations := 2 \<rparr>))
              ([(va, c1), (vb, a1), (vc, i1), (vd, f1)] @ [(ve, c2), (vf, a2), (vg, i2), (vh, f2)])
          in system_state final = COMPLETE \<and> current_iteration final = 2
             \<and> (\<forall>ms. 2 \<le> current_iteration (handle_all final ms)))
       \<and> (\<forall>wc ws s m. current_iteration s \<le> current_iteration (fst (handle_message wc ws s m))
             \<and> current_iteration (fst (handle_message wc ws s m)) \<le> current_iteration s + 1)
       \<and> (\<forall>w s. current_iteration s \<le> current_iteration (check_system_progress w s)
             \<and> current_iteration (check_system_progress w s) \<le> current_iteration s + 1)
       \<and> (\<forall>w s. current_iteration (start_iteration w s) = current_iteration s + 1)
       \<and> (\<forall>u1 u2 u3 s. current_iteration s \<le> current_iteration (Orchestrator_start u1 u2 u3 s))"
proof -
  let ?final = "handle_all
              (Orchestrator_start wa wb wd
                 ((Orchestrator_init (Contents cfg))\<lparr> max_iterations := 2 \<rparr>))
              ([(va, c1), (vb, a1), (vc, i1), (vd, f1)] @ [(ve, c2), (vf, a2), (vg, i2), (vh, f2)])"
  have st: "at_stage COMPLETE 2 2 ?final"
    by (rule two_passes_at_stage [OF url p1 p2])
  then have a: "system_state ?final = COMPLETE" and b: "current_iteration ?final = 2"
    by (simp_all add: at_stage_def)
  have c: "\<forall>ms. 2 \<le> current_iteration (handle_all ?final ms)"
    using handle_all_lower [of ?final] b by simp
  show ?thesis
    unfolding Let_def
    using a b c handle_message_lower handle_message_upper check_progress_lower [OF order_refl]
      check_progress_upper [OF order_refl] start_iteration_fields(1) Orchestrator_start_lower
    by blast
qed

theorem two_passes_reach_complete_witness:
  "system_state (handle_all (started 2) (full_pass @ full_pass)) = COMPLETE
   \<and> current_iteration (handle_all (started 2) (full_pass @ full_pass)) = 2"
proof -
  have url: "truthy (dict_get example_config ''website_url'')"
    by (simp add: example_config_def dict_get_def)
  have c: "is_completion CRAWLER
              (completion_notice CRAWLER ''pages_crawled'' 3 ''crawler/output/result.json'')"
    by (rule is_completion_notice) simp_all
  have a: "is_completion ANALYSIS
              (completion_notice ANALYSIS ''pages_analyzed'' 3 ''analysis/output/result.json'')"
    by (rule is_completion_notice) simp_all
  have i: "is_completion IMPLEMENTATION
              (completion_notice IMPLEMENTATION ''files_generated'' 3
                 ''implementation/output/result.json'')"
    by (rule is_completion_notice) simp_all
  have f: "is_completion FEEDBACK
              (completion_notice FEEDBACK ''score'' 2 ''feedback/output/result.json'')"
    by (rule is_completion_notice) simp_all
  show ?thesis
    using two_passes_reach_complete [OF url c a i f c a i f,
      where wa = IoOk and wb = IoOk and wd = IoOk
        and va = "(IoOk, IoOk)" and vb = "(IoOk, IoOk)" and vc = "(IoOk, IoOk)"
        and vd = "(IoOk, IoOk)" and ve = "(IoOk, IoOk)" and vf = "(IoOk, IoOk)"
        and vg = "(IoOk, IoOk)" and vh = "(IoOk, IoOk)", THEN conjunct1]
    unfolding started_def full_pass_def Let_def by blast
qed


lemma set_url_in_progress_once:
  assumes "message_type m = REQUEST" and "dict_get (payload m) ''action'' = PStr ''set_url''"
    and "system_state s \<in> {CRAWLING, ANALYZING, IMPLEMENTING, FEEDBACK_STATE}"
  shows "current_iteration (fst (handle_message wc ws s m)) = current_iteration s"
    and "system_state (fst (handle_message wc ws s m)) = system_state s"
    and "agent_results (fst (handle_message wc ws s m)) = agent_results s"
    and "outbox (fst (handle_message wc ws s m)) = outbox s"
  using assms by (auto simp: handle_message_def Let_def save_config_def)

lemma set_url_when_idle:
  assumes "message_type m = REQUEST" and "dict_get (payload m) ''action'' = PStr ''set_url''"
    and "truthy (dict_get (payload m) ''url'')"
    and "system_state s = COMPLETE \<or> system_state s = INITIALIZING"
  shows "current_iteration (fst (handle_message wc ws s m)) = current_iteration s + 1"
    and "max_iterations (fst (handle_message wc ws s m)) = max_iterations s"
    and "system_state (fst (handle_message wc ws s m)) =
           (if current_iteration s + 1 > max_iterations s then COMPLETE else CRAWLING)"
  using assms by (auto simp: handle_message_def Let_def save_config_def start_iteration_fields)

text \<open>
  Claim C5, as amended. While an iteration is in progress (state crawling, analyzing,
  implementing or feedback), handling a \<^verbatim>\<open>set_url\<close> request, once or twice in succession,
  changes neither \<open>current_iteration\<close> nor the system state, keeps the recorded results
  and sends no crawl request. From state complete or initializing a \<^verbatim>\<open>set_url\<close> request
  with a URL starts an iteration: the counter goes up by one.
\<close>

theorem set_url_twice_in_progress:
  assumes "message_type m = REQUEST" and "dict_get (payload m) ''action'' = PStr ''set_url''"
  shows "(system_state s \<in> {CRAWLING, ANALYZING, IMPLEMENTING, FEEDBACK_STATE} \<longrightarrow>
            (let s1 = fst (handle_message wc ws s m);
                 s2 = fst (handle_message wc' ws' s1 m)
             in current_iteration s1 = current_iteration s
                \<and> current_iteration s2 = current_iteration s
                \<and> system_state s1 = system_state s \<and> system_state s2 = system_state s
                \<and> agent_results s2 = agent_results s \<and> outbox s2 = outbox s))
       \<and> ((system_state s = COMPLETE \<or> system_state s = INITIALIZING)
             \<and> truthy (dict_get (payload m) ''url'') \<longrightarrow>
            current_iteration (fst (handle_message wc ws s m)) = current_iteration s + 1)"
proof (intro conjI impI)
  assume st: "system_state s \<in> {CRAWLING, ANALYZING, IMPLEMENTING, FEEDBACK_STATE}"
  let ?s1 = "fst (handle_message wc ws s m)"
  note one = set_url_in_progress_once [OF assms st, of wc ws]
  have st1: "system_state ?s1 \<in> {CRAWLING, ANALYZING, IMPLEMENTING, FEEDBACK_STATE}"
    using st one(2) by simp
  note two = set_url_in_progress_once [OF assms st1, of wc' ws']
  show "let s1 = fst (handle_message wc ws s m);
            s2 = fst (handle_message wc' ws' s1 m)
        in current_iteration s1 = current_iteration s
           \<and> current_iteration s2 = current_iteration s
           \<and> system_state s1 = system_state s \<and> system_state s2 = system_state s
           \<and> agent_results s2 = agent_results s \<and> outbox s2 = outbox s"
    unfolding Let_def using one two by simp
next
  assume "(system_state s = COMPLETE \<or> system_state s = INITIALIZING)
             \<and> truthy (dict_get (payload m) ''url'')"
  then show "current_iteration (fst (handle_message wc ws s m)) = current_iteration s + 1"
    using set_url_when_idle(1) [OF assms] by blast
qed

lemma set_url_request_fields:
  "message_type (set_url_request src u) = REQUEST"
  "dict_get (payload (set_url_request src u)) ''action'' = PStr ''set_url''"
  "dict_get (payload (set_url_request src u)) ''url'' = PStr u"
  by (simp_all add: set_url_request_def Message_init_def dict_get_def)

lemma started_at_stage: "0 < mx \<Longrightarrow> at_stage CRAWLING 1 mx (started mx)"
  unfolding started_def
  by (rule Orchestrator_start_configured) (simp_all add: example_config_def dict_get_def)

theorem set_url_twice_in_progress_witness:
  "system_state (started 3) = CRAWLING
   \<and> current_iteration (started 3) = 1
   \<and> current_iteration
        (handle_all (started 3)
           [((IoOk, IoOk), set_url_request ORCHESTRATOR ''http://example.com''),
            ((IoOk, IoOk), set_url_request ORCHESTRATOR ''http://example.com'')]) = 1
   \<and> system_state
        (handle_all (started 3)
           [((IoOk, IoOk), set_url_request ORCHESTRATOR ''http://example.com''),
            ((IoOk, IoOk), set_url_request ORCHESTRATOR ''http://example.com'')]) = CRAWLING"
proof -
  have st: "at_stage CRAWLING 1 3 (started 3)" by (rule started_at_stage) simp
  then have a: "system_state (started 3) = CRAWLING" and b: "current_iteration (started 3) = 1"
    by (simp_all add: at_stage_def)
  show ?thesis
    using a b
      set_url_twice_in_progress [where m = "set_url_request ORCHESTRATOR ''http://example.com''"
        and s = "started 3" and wc = IoOk and ws = IoOk and wc' = IoOk and ws' = IoOk,
        OF set_url_request_fields(1,2), THEN conjunct1]
    by (simp add: Let_def)
qed

lemma full_pass_completions:
  "is_completion CRAWLER
     (completion_notice CRAWLER ''pages_crawled'' 3 ''crawler/output/result.json'')"
  "is_completion ANALYSIS
     (completion_notice ANALYSIS ''pages_analyzed'' 3 ''analysis/output/result.json'')"
  "is_completion IMPLEMENTATION
     (completion_notice IMPLEMENTATION ''files_generated'' 3 ''implementation/output/result.json'')"
  "is_completion FEEDBACK
     (completion_notice FEEDBACK ''score'' 2 ''feedback/output/result.json'')"
  by (rule is_completion_notice; simp)+

lemma two_full_passes: "at_stage COMPLETE 2 2 (handle_all (started 2) (full_pass @ full_pass))"
proof -
  have url: "truthy (dict_get example_config ''website_url'')"
    by (simp add: example_config_def dict_get_def)
  show ?thesis
    unfolding started_def full_pass_def
    by (rule two_passes_at_stage [OF url full_pass_completions full_pass_completions])
qed

lemma feedback_next_results:
  assumes "is_completion FEEDBACK m" and "at_stage FEEDBACK_STATE i mx s" and "i < mx"
  shows "agent_results (fst (handle_message wc ws s m)) = Map.empty"
  using assms(2,3)
  by (simp add: handle_completion [OF assms(1)] check_progress_running at_stage_def
      start_iteration_fields)

lemma first_pass_state:
  "at_stage CRAWLING 2 2 (handle_all (started 2) full_pass)"
  "agent_results (handle_all (started 2) full_pass) = Map.empty"
proof -
  note c = full_pass_completions
  have 0: "at_stage CRAWLING 1 2 (started 2)" by (rule started_at_stage) simp
  note 1 = step_crawler [OF c(1) 0, of IoOk IoOk]
  note 2 = step_analysis [OF c(2) 1, of IoOk IoOk]
  note 3 = step_implementation [OF c(3) 2, of IoOk IoOk]
  show "at_stage CRAWLING 2 2 (handle_all (started 2) full_pass)"
    using step_feedback_next [OF c(4) 3, of IoOk IoOk] by (simp add: full_pass_def)
  show "agent_results (handle_all (started 2) full_pass) = Map.empty"
    using feedback_next_results [OF c(4) 3, of IoOk IoOk] by (simp add: full_pass_def)
qed

text \<open>
  Claim C4 as first stated, for any two full successful passes, fails when the notices
  of a pass are not handled in pipeline order. After a first pass in order, let the
  second pass's analysis notice be handled before its crawler notice: the progress check
  advances one state per notice, so the feedback notice, which ends the pass, finds the
  state implementing and moves it to feedback. Both passes are complete, yet the
  orchestrator is left in state feedback, not complete, with the counter at 2.
\<close>

theorem two_passes_out_of_order_counterexample:
  "system_state (handle_all (started 2) (full_pass @ analysis_first_pass)) = FEEDBACK_STATE
   \<and> system_state (handle_all (started 2) (full_pass @ analysis_first_pass)) \<noteq> COMPLETE
   \<and> current_iteration (handle_all (started 2) (full_pass @ analysis_first_pass)) = 2"
proof -
  note c = full_pass_completions
  let ?s0 = "handle_all (started 2) full_pass"
  let ?a = "completion_notice ANALYSIS ''pages_analyzed'' 3 ''analysis/output/result.json''"
  let ?c = "completion_notice CRAWLER ''pages_crawled'' 3 ''crawler/output/result.json''"
  let ?i = "completion_notice IMPLEMENTATION ''files_generated'' 3
              ''implementation/output/result.json''"
  let ?f = "completion_notice FEEDBACK ''score'' 2 ''feedback/output/result.json''"
  let ?s1 = "fst (handle_message IoOk IoOk ?s0 ?a)"
  let ?s2 = "fst (handle_message IoOk IoOk ?s1 ?c)"
  let ?s3 = "fst (handle_message IoOk IoOk ?s2 ?i)"
  let ?s4 = "fst (handle_message IoOk IoOk ?s3 ?f)"
  have s0: "system_state ?s0 = CRAWLING" "current_iteration ?s0 = 2"
      "agents_status ?s0 CRAWLER \<noteq> ''error''" "agent_results ?s0 = Map.empty"
    using first_pass_state by (simp_all add: at_stage_def)
  have s1: "system_state ?s1 = CRAWLING" "current_iteration ?s1 = 2"
      "agents_status ?s1 CRAWLER \<noteq> ''error''" "ANALYSIS \<in> dom (agent_results ?s1)"
    using s0 by (simp_all add: handle_completion [OF c(2)] check_progress_running)
  have s2: "system_state ?s2 = ANALYZING" "current_iteration ?s2 = 2"
      "agents_status ?s2 CRAWLER \<noteq> ''error''" "ANALYSIS \<in> dom (agent_results ?s2)"
    using s1 by (simp_all add: handle_completion [OF c(1)] check_progress_running)
  have s3: "system_state ?s3 = IMPLEMENTING" "current_iteration ?s3 = 2"
      "agents_status ?s3 CRAWLER \<noteq> ''error''" "IMPLEMENTATION \<in> dom (agent_results ?s3)"
    using s2 by (simp_all add: handle_completion [OF c(3)] check_progress_running)
  have s4: "system_state ?s4 = FEEDBACK_STATE" "current_iteration ?s4 = 2"
    using s3 by (simp_all add: handle_completion [OF c(4)] check_progress_running)
  have "handle_all (started 2) (full_pass @ analysis_first_pass) = ?s4"
    by (simp add: handle_all_append analysis_first_pass_def)
  then show ?thesis using s4 by simp
qed

text \<open>
  The claim as first stated, for every state, fails once the budget is used up: after
  the two passes of claim C4 the orchestrator is in state complete with the counter at 2,
  a \<^verbatim>\<open>set_url\<close> request takes the counter to 3 (the state staying complete), and the same
  request again takes it to 4.
\<close>

theorem set_url_twice_counterexample:
  "current_iteration (handle_all (started 2) (full_pass @ full_pass)) = 2
   \<and> current_iteration
        (handle_all (handle_all (started 2) (full_pass @ full_pass))
           [((IoOk, IoOk), set_url_request ORCHESTRATOR ''http://example.com'')]) = 3
   \<and> current_iteration
        (handle_all (handle_all (started 2) (full_pass @ full_pass))
           [((IoOk, IoOk), set_url_request ORCHESTRATOR ''http://example.com''),
            ((IoOk, IoOk), set_url_request ORCHESTRATOR ''http://example.com'')]) = 4"
proof -
  let ?s = "handle_all (started 2) (full_pass @ full_pass)"
  let ?m = "set_url_request ORCHESTRATOR ''http://example.com''"
  let ?s1 = "fst (handle_message IoOk IoOk ?s ?m)"
  have s: "system_state ?s = COMPLETE" "current_iteration ?s = 2" "max_iterations ?s = 2"
    using two_full_passes by (simp_all add: at_stage_def)
  have u: "truthy (dict_get (payload ?m) ''url'')"
    by (simp add: set_url_request_fields)
  note f = set_url_request_fields(1,2) [of ORCHESTRATOR "''http://example.com''"]
  have s1: "current_iteration ?s1 = 3" "max_iterations ?s1 = 2" "system_state ?s1 = COMPLETE"
    using set_url_when_idle [OF f u, of ?s IoOk IoOk] s by simp_all
  have s2: "current_iteration (fst (handle_message IoOk IoOk ?s1 ?m)) = 4"
    using set_url_when_idle(1) [OF f u, of ?s1 IoOk IoOk] s1 by simp
  show ?thesis using s s1 s2 by simp
qed


lemma any_error_iff:
  "list_ex (\<lambda>t. f t = ''error'') all_agent_types \<longleftrightarrow> (\<exists>t. f t = ''error'')"
proof -
  have "set all_agent_types = UNIV"
    using AgentType.exhaust by (auto simp: all_agent_types_def)
  then show ?thesis by (auto simp: list_ex_iff)
qed

lemma handle_error:
  assumes "message_type m = ERROR"
  shows "fst (handle_message wc ws s m) =
     check_system_progress ws (s\<lparr> agents_status := (agents_status s)(source_agent m := ''error'') \<rparr>)"
  using assms by (simp add: handle_message_def Let_def)

lemma check_progress_crawler_error:
  assumes "agents_status s CRAWLER = ''error''"
  shows "system_state (check_system_progress w s) = ERROR_STATE"
  using assms by (simp add: check_system_progress_def any_error_iff) blast

lemma check_progress_not_to_error:
  assumes "agents_status s CRAWLER \<noteq> ''error''" and "system_state s \<noteq> ERROR_STATE"
  shows "system_state (check_system_progress w s) \<noteq> ERROR_STATE"
  using assms by (simp add: check_progress_running start_iteration_fields)

lemma check_progress_nothing_pending:
  assumes "agents_status s CRAWLER \<noteq> ''error''"
    and "case awaited (system_state s) of None \<Rightarrow> True | Some a \<Rightarrow> a \<notin> dom (agent_results s)"
  shows "check_system_progress w s = s"
  using assms by (cases "system_state s") (simp_all add: check_progress_running)

text \<open>
  Claim C1, as amended. Handling an error notice from the crawler puts the system state
  to error, whatever it was. Handling an error notice from the analysis, implementation
  or feedback agent, with the crawler not recorded as failed, never moves a state other
  than error to error, and leaves the state at its current value whenever no result of
  the stage the state machine is waiting for has been recorded; otherwise
  \<^verbatim>\<open>check_system_progress\<close> goes on to its progress step, as after any notice.
\<close>

theorem error_notice_escalation:
  assumes "message_type m = ERROR"
  shows "(source_agent m = CRAWLER \<longrightarrow>
            system_state (fst (handle_message wc ws s m)) = ERROR_STATE)
       \<and> (source_agent m \<in> {ANALYSIS, IMPLEMENTATION, FEEDBACK}
            \<and> agents_status s CRAWLER \<noteq> ''error'' \<longrightarrow>
            (system_state s \<noteq> ERROR_STATE \<longrightarrow>
               system_state (fst (handle_message wc ws s m)) \<noteq> ERROR_STATE)
            \<and> ((case awaited (system_state s) of
                   None \<Rightarrow> True | Some a \<Rightarrow> a \<notin> dom (agent_results s)) \<longrightarrow>
                 system_state (fst (handle_message wc ws s m)) = system_state s))"
proof (intro conjI impI)
  assume "source_agent m = CRAWLER"
  then show "system_state (fst (handle_message wc ws s m)) = ERROR_STATE"
    by (simp add: handle_error [OF assms] check_progress_crawler_error)
next
  assume a: "source_agent m \<in> {ANALYSIS, IMPLEMENTATION, FEEDBACK}
            \<and> agents_status s CRAWLER \<noteq> ''error''"
    and b: "system_state s \<noteq> ERROR_STATE"
  let ?s1 = "s\<lparr> agents_status := (agents_status s)(source_agent m := ''error'') \<rparr>"
  have "agents_status ?s1 CRAWLER \<noteq> ''error''" using a by auto
  moreover have "system_state ?s1 \<noteq> ERROR_STATE" using b by simp
  ultimately show "system_state (fst (handle_message wc ws s m)) \<noteq> ERROR_STATE"
    unfolding handle_error [OF assms] by (rule check_progress_not_to_error)
next
  assume a: "source_agent m \<in> {ANALYSIS, IMPLEMENTATION, FEEDBACK}
            \<and> agents_status s CRAWLER \<noteq> ''error''"
    and b: "case awaited (system_state s) of
                   None \<Rightarrow> True | Some a \<Rightarrow> a \<notin> dom (agent_results s)"
  let ?s1 = "s\<lparr> agents_status := (agents_status s)(source_agent m := ''error'') \<rparr>"
  have "agents_status ?s1 CRAWLER \<noteq> ''error''" using a by auto
  moreover have "case awaited (system_state ?s1) of
                   None \<Rightarrow> True | Some a \<Rightarrow> a \<notin> dom (agent_results ?s1)"
    using b by (auto split: option.splits)
  ultimately have "check_system_progress ws ?s1 = ?s1"
    by (rule check_progress_nothing_pending)
  then show "system_state (fst (handle_message wc ws s m)) = system_state s"
    by (simp add: handle_error [OF assms])
qed

lemma error_notice_fields:
  "message_type (error_notice src e) = ERROR"
  "source_agent (error_notice src e) = src"
  by (simp_all add: error_notice_def Message_init_def)

theorem error_notice_escalation_witness:
  "system_state (started 3) = CRAWLING
   \<and> system_state (fst (handle_message IoOk IoOk (started 3)
         (error_notice CRAWLER ''Crawling failed: timeout''))) = ERROR_STATE
   \<and> system_state (fst (handle_message IoOk IoOk (started 3)
         (error_notice ANALYSIS ''Error analyzing crawl result: boom''))) = CRAWLING"
proof -
  have st: "at_stage CRAWLING 1 3 (started 3)" by (rule started_at_stage) simp
  have r: "agent_results (started 3) = Map.empty"
    by (simp add: started_def Orchestrator_start_def Let_def start_iteration_fields
        example_config_def dict_get_def Orchestrator_init_def start_def update_status_def)
  have 1: "system_state (fst (handle_message IoOk IoOk (started 3)
         (error_notice CRAWLER ''Crawling failed: timeout''))) = ERROR_STATE"
    using error_notice_escalation [where m = "error_notice CRAWLER ''Crawling failed: timeout''"
        and s = "started 3" and wc = IoOk and ws = IoOk, OF error_notice_fields(1), THEN conjunct1]
    by (simp add: error_notice_fields)
  have 2: "system_state (fst (handle_message IoOk IoOk (started 3)
         (error_notice ANALYSIS ''Error analyzing crawl result: boom''))) = system_state (started 3)"
    using error_notice_escalation [where m = "error_notice ANALYSIS ''Error analyzing crawl result: boom''"
        and s = "started 3" and wc = IoOk and ws = IoOk, OF error_notice_fields(1), THEN conjunct2] st r
    by (simp add: error_notice_fields at_stage_def)
  show ?thesis using st 1 2 by (simp add: at_stage_def)
qed

text \<open>
  The claim as first stated, that such an error notice never changes the state, fails
  when a result of the awaited stage is already recorded. The analysis notice handled
  before the crawler's leaves the orchestrator in state analyzing with the analysis
  result on record; the error notice of the feedback agent then moves it to
  implementing.
\<close>

theorem error_notice_counterexample:
  "system_state analysis_before_crawler = ANALYZING
   \<and> agents_status analysis_before_crawler CRAWLER = ''idle''
   \<and> system_state (fst (handle_message IoOk IoOk analysis_before_crawler
         (error_notice FEEDBACK ''Error evaluating implementation: boom''))) = IMPLEMENTING"
proof -
  let ?a = "completion_notice ANALYSIS ''pages_analyzed'' 3 ''analysis/output/result.json''"
  let ?c = "completion_notice CRAWLER ''pages_crawled'' 3 ''crawler/output/result.json''"
  let ?s1 = "fst (handle_message IoOk IoOk (started 3) ?a)"
  let ?s2 = "fst (handle_message IoOk IoOk ?s1 ?c)"
  have st: "at_stage CRAWLING 1 3 (started 3)" by (rule started_at_stage) simp
  have r: "agent_results (started 3) = Map.empty"
    by (simp add: started_def Orchestrator_start_def Let_def start_iteration_fields
        example_config_def dict_get_def Orchestrator_init_def start_def update_status_def)
  have s1: "system_state ?s1 = CRAWLING" "agents_status ?s1 CRAWLER \<noteq> ''error''"
      "ANALYSIS \<in> dom (agent_results ?s1)"
    using st r
    by (simp_all add: handle_completion [OF full_pass_completions(2)] check_progress_running
        at_stage_def)
  have s2: "system_state ?s2 = ANALYZING" "agents_status ?s2 CRAWLER = ''idle''"
      "ANALYSIS \<in> dom (agent_results ?s2)"
    using s1
    by (simp_all add: handle_completion [OF full_pass_completions(1)] check_progress_running)
  have s3: "system_state (fst (handle_message IoOk IoOk ?s2
              (error_notice FEEDBACK ''Error evaluating implementation: boom''))) = IMPLEMENTING"
    using s2
    by (simp add: handle_error [OF error_notice_fields(1)] error_notice_fields
        check_progress_running)
  show ?thesis unfolding analysis_before_crawler_def using s2 s3 by simp
qed


section \<open>Properties of the analysis\<close>

lemma bind_err_Inr:
  "bind_err r f = Inr y \<longleftrightarrow> (\<exists>v. r = Inr v \<and> f v = Inr y)"
  by (cases r) (simp_all add: bind_err_def)

lemma bind_err_Inl:
  "bind_err r f = Inl e \<longleftrightarrow> r = Inl e \<or> (\<exists>v. r = Inr v \<and> f v = Inl e)"
  by (cases r) (simp_all add: bind_err_def)

lemma bind_err_simps [simp]:
  "bind_err (Inr v) f = f v" "bind_err (Inl e) f = Inl e"
  by (simp_all add: bind_err_def)

lemma count_flag_filter:
  "count_flag key pages = Inr c \<Longrightarrow> c = length (filter (flag_true key) pages)"
proof (induction pages arbitrary: c)
  case Nil
  then show ?case by simp
next
  case (Cons page pages)
  from Cons.prems obtain v c' where
    v: "py_get page key (PBool False) = Inr v" and c': "count_flag key pages = Inr c'"
    and c: "c = (if truthy v then Suc c' else c')"
    by (auto simp: bind_err_Inr)
  from v obtain d where d: "page = PDict d" "v = dict_get_default d key (PBool False)"
    by (cases page) auto
  have "flag_true key page = truthy v" by (simp add: d flag_true_def)
  with Cons.IH [OF c'] c show ?case by simp
qed

lemma percentage_of_value:
  assumes "percentage_of rnd c n = Inr v"
  shows "v = PFloat (fmul rnd (rnd (of_nat c / of_nat n)) (Fin 100))"
  using assms
  by (auto simp: percentage_of_def bind_err_Inr split: if_splits pyfloat.splits)

lemma page_structure_of_empty:
  "page_structure_of rnd (PList []) =
     Inr \<lparr> header_percentage = PInt 0, footer_percentage = PInt 0, nav_percentage = PInt 0,
           avg_sections_per_page = PInt 0 \<rparr>"
  by (simp add: page_structure_of_def)

lemma page_structure_of_percentages:
  assumes "page_structure_of rnd (PList ps) = Inr s" and "ps \<noteq> []"
  shows "header_percentage s = percentage_spec rnd ''has_header'' ps"
    and "footer_percentage s = percentage_spec rnd ''has_footer'' ps"
    and "nav_percentage s = percentage_spec rnd ''has_nav'' ps"
proof -
  from assms obtain ch cf cn hp fp np avg where
    ch: "count_flag ''has_header'' ps = Inr ch" and cf: "count_flag ''has_footer'' ps = Inr cf"
    and cn: "count_flag ''has_nav'' ps = Inr cn"
    and hp: "percentage_of rnd ch (length ps) = Inr hp"
    and fp: "percentage_of rnd cf (length ps) = Inr fp"
    and np: "percentage_of rnd cn (length ps) = Inr np"
    and s: "s = \<lparr> header_percentage = hp, footer_percentage = fp, nav_percentage = np,
             avg_sections_per_page = avg \<rparr>"
    by (auto simp: page_structure_of_def bind_err_Inr)
  show "header_percentage s = percentage_spec rnd ''has_header'' ps"
    using percentage_of_value [OF hp] count_flag_filter [OF ch] by (simp add: s percentage_spec_def)
  show "footer_percentage s = percentage_spec rnd ''has_footer'' ps"
    using percentage_of_value [OF fp] count_flag_filter [OF cf] by (simp add: s percentage_spec_def)
  show "nav_percentage s = percentage_spec rnd ''has_nav'' ps"
    using percentage_of_value [OF np] count_flag_filter [OF cn] by (simp add: s percentage_spec_def)
qed

lemma analyze_page_structure:
  assumes "analyze_crawl_result rnd (Inr cr) = Inr a" and "py_getitem cr ''pages'' = Inr pages"
  shows "page_structure_of rnd pages = Inr (an_page_structure a)"
  using assms by (auto simp: analyze_crawl_result_def build_analysis_def bind_err_Inr)

lemma percentages_when_saved:
  assumes "analyze_crawl_result rnd (Inr cr) = Inr a"
    and "py_getitem cr ''pages'' = Inr (PList ps)" and "ps \<noteq> []"
  shows "header_percentage (an_page_structure a) = percentage_spec rnd ''has_header'' ps
       \<and> footer_percentage (an_page_structure a) = percentage_spec rnd ''has_footer'' ps
       \<and> nav_percentage (an_page_structure a) = percentage_spec rnd ''has_nav'' ps"
  using page_structure_of_percentages [OF analyze_page_structure [OF assms(1,2)] assms(3)]
  by simp



lemma example_analysis:
  "analyze_crawl_result Fin (Inr (example_crawl example_pages [example_asset])) =
     Inr \<lparr> an_base_url = PStr ''http://example.com'', an_pages_analyzed = 3,
           an_page_structure =
             \<lparr> header_percentage = PFloat (Fin 100), footer_percentage = PFloat (Fin (200 / 3)),
               nav_percentage = PFloat (Fin 0), avg_sections_per_page = PFloat (Fin 1) \<rparr>,
           an_common_patterns = [],
           an_asset_analysis =
             Some \<lparr> total_css_files = PInt 2, total_js_files = PInt 1, total_images = PInt 4,
                    avg_css_per_page = PFloat (Fin 2), avg_js_per_page = PFloat (Fin 1),
                    avg_images_per_page = PFloat (Fin 4) \<rparr>,
           an_recommendations = [''Implement consistent header across all pages''] \<rparr>"
  by (simp add: analyze_crawl_result_def build_analysis_def example_crawl_def example_pages_def
      example_page_def example_asset_def dict_item_def page_structure_of_def percentage_of_def
      dict_get_default_def asset_analysis_of_def recommendations_of_def)

lemma to_float_error: "to_float rnd i = Inl e \<Longrightarrow> e = OverflowError"
  by (auto simp: to_float_def split: pyfloat.splits)

lemma num_add_error: "num_add rnd acc v = Inl e \<Longrightarrow> e = TypeError \<or> e = OverflowError"
  by (induction rnd acc v rule: num_add.induct) (auto simp: bind_err_Inl dest: to_float_error)

lemma py_get_error: "py_get x k d = Inl e \<Longrightarrow> e = AttributeError"
  by (cases x) auto

lemma sum_key_error:
  "sum_key rnd key acc items = Inl e \<Longrightarrow> e \<noteq> ZeroDivisionError"
proof (induction items arbitrary: acc)
  case Nil
  then show ?case by simp
next
  case (Cons item items)
  then show ?case
    by (auto simp: bind_err_Inl dest: py_get_error num_add_error)
qed

lemma truediv_error:
  assumes "\<forall>n::int. n \<noteq> 0 \<longrightarrow> rnd (of_int n) \<noteq> Fin 0" and "n \<noteq> 0"
  shows "truediv rnd x n \<noteq> Inl ZeroDivisionError"
proof (cases x)
  case (PInt a)
  then show ?thesis using assms(2) by (simp split: pyfloat.splits)
next
  case (PFloat f)
  have "rnd (of_int (int n)) \<noteq> Fin 0"
    using assms by (metis of_nat_eq_0_iff)
  then have "to_float rnd (int n) \<noteq> Inr (Fin 0)"
    unfolding to_float_def by (auto split: pyfloat.splits)
  moreover have "to_float rnd (int n) \<noteq> Inl ZeroDivisionError"
    using to_float_error by fastforce
  ultimately show ?thesis using PFloat by (auto simp: bind_err_Inl)
qed simp_all

lemma truthy_len: "truthy v \<Longrightarrow> py_len v = Inr n \<Longrightarrow> n \<noteq> 0"
  by (cases v) auto

lemma py_len_error: "py_len v = Inl e \<Longrightarrow> e = TypeError"
  by (cases v) auto

lemma py_iter_error: "py_iter v = Inl e \<Longrightarrow> e = TypeError"
  by (cases v) auto

lemma py_getitem_error: "py_getitem v k = Inl e \<Longrightarrow> e = TypeError \<or> e = KeyError"
  by (cases v) (auto simp: dict_item_def split: option.splits)

lemma num_gt_error: "num_gt x k = Inl e \<Longrightarrow> e = TypeError"
  by (induction x k rule: num_gt.induct) auto

lemma asset_analysis_of_error:
  assumes "\<forall>n::int. n \<noteq> 0 \<longrightarrow> rnd (of_int n) \<noteq> Fin 0"
  shows "asset_analysis_of rnd assets \<noteq> Inl ZeroDivisionError"
proof
  assume a: "asset_analysis_of rnd assets = Inl ZeroDivisionError"
  then have t: "truthy assets" by (auto simp: asset_analysis_of_def split: if_splits)
  from a t show False
    using sum_key_error truediv_error [OF assms truthy_len [OF t]] py_iter_error py_len_error
    by (fastforce simp: asset_analysis_of_def bind_err_Inl)
qed

lemma recommendations_of_error: "recommendations_of ps aa \<noteq> Inl ZeroDivisionError"
  using num_gt_error
  by (fastforce simp: recommendations_of_def bind_err_Inl split: option.splits)

text \<open>
  Claim C9. With an empty list of pages no division is made for the page structure:
  its four entries are set to the int 0, and any artifact the analysis goes on to
  produce carries them. The rest of the function divides only by the length of a
  non-empty \<^verbatim>\<open>assets\<close>, so (with a rounding that sends no non-zero integer to zero, as
  rounding to the nearest double does) the exception it may end in is never
  ZeroDivisionError.
\<close>

theorem empty_pages_all_zero:
  assumes "py_getitem cr ''pages'' = Inr (PList [])"
  shows "page_structure_of rnd (PList []) =
           Inr \<lparr> header_percentage = PInt 0, footer_percentage = PInt 0,
                 nav_percentage = PInt 0, avg_sections_per_page = PInt 0 \<rparr>
       \<and> (\<forall>a. analyze_crawl_result rnd (Inr cr) = Inr a \<longrightarrow>
              an_page_structure a =
                \<lparr> header_percentage = PInt 0, footer_percentage = PInt 0,
                  nav_percentage = PInt 0, avg_sections_per_page = PInt 0 \<rparr>)
       \<and> ((\<forall>n::int. n \<noteq> 0 \<longrightarrow> rnd (of_int n) \<noteq> Fin 0) \<longrightarrow>
              analyze_crawl_result rnd (Inr cr) \<noteq> Inl ZeroDivisionError)"
proof (intro conjI allI impI)
  show "page_structure_of rnd (PList []) =
           Inr \<lparr> header_percentage = PInt 0, footer_percentage = PInt 0,
                 nav_percentage = PInt 0, avg_sections_per_page = PInt 0 \<rparr>"
    by (rule page_structure_of_empty)
next
  fix a assume "analyze_crawl_result rnd (Inr cr) = Inr a"
  from analyze_page_structure [OF this assms]
  show "an_page_structure a =
          \<lparr> header_percentage = PInt 0, footer_percentage = PInt 0,
            nav_percentage = PInt 0, avg_sections_per_page = PInt 0 \<rparr>"
    by (simp add: page_structure_of_empty)
next
  assume r: "\<forall>n::int. n \<noteq> 0 \<longrightarrow> rnd (of_int n) \<noteq> Fin 0"
  show "analyze_crawl_result rnd (Inr cr) \<noteq> Inl ZeroDivisionError"
  proof
    assume "analyze_crawl_result rnd (Inr cr) = Inl ZeroDivisionError"
    then show False
      using assms asset_analysis_of_error [OF r] recommendations_of_error py_getitem_error
      by (fastforce simp: analyze_crawl_result_def build_analysis_def bind_err_Inl
          page_structure_of_empty)
  qed
qed

theorem empty_pages_all_zero_witness:
  "analyze_crawl_result Fin (Inr (example_crawl [] [example_asset])) =
     Inr \<lparr> an_base_url = PStr ''http://example.com'', an_pages_analyzed = 0,
           an_page_structure =
             \<lparr> header_percentage = PInt 0, footer_percentage = PInt 0,
               nav_percentage = PInt 0, avg_sections_per_page = PInt 0 \<rparr>,
           an_common_patterns = [],
           an_asset_analysis =
             Some \<lparr> total_css_files = PInt 2, total_js_files = PInt 1, total_images = PInt 4,
                    avg_css_per_page = PFloat (Fin 2), avg_js_per_page = PFloat (Fin 1),
                    avg_images_per_page = PFloat (Fin 4) \<rparr>,
           an_recommendations = [] \<rparr>"
proof -
  have p: "py_getitem (example_crawl [] [example_asset]) ''pages'' = Inr (PList [])"
    by (simp add: example_crawl_def dict_item_def)
  show ?thesis
    using empty_pages_all_zero [OF p, of Fin]
    by (simp add: analyze_crawl_result_def build_analysis_def example_crawl_def
      example_asset_def dict_item_def page_structure_of_def
      dict_get_default_def asset_analysis_of_def recommendations_of_def)
qed


lemma recommendations_of_no_assets: "recommendations_of ps None \<noteq> Inr recs"
  by (auto simp: recommendations_of_def bind_err_Inr)

text \<open>
  Claim C6. Where an artifact is saved, its three percentages are as the claim says
  (\<open>percentages_when_saved\<close>). But the claim does not hold of the code for every crawl
  result with pages: whenever \<^verbatim>\<open>assets\<close> is empty, as in a crawl result of 3 pages and 0
  assets, the page structure is computed and then the third recommendation test reads
  \<^verbatim>\<open>analysis["asset_analysis"]["avg_js_per_page"]\<close> from the empty dictionary, the
  KeyError ends the function in its handler, and no artifact is saved at all.
\<close>

theorem empty_assets_no_artifact:
  assumes "py_getitem cr ''assets'' = Inr assets" and "\<not> truthy assets"
  shows "analyze_crawl_result rnd (Inr cr) \<noteq> Inr a"
proof
  assume "analyze_crawl_result rnd (Inr cr) = Inr a"
  then obtain ps aa recs where
    aa: "asset_analysis_of rnd assets = Inr aa" and r: "recommendations_of ps aa = Inr recs"
    using assms(1) by (auto simp: analyze_crawl_result_def build_analysis_def bind_err_Inr)
  from aa assms(2) have "aa = None" by (simp add: asset_analysis_of_def)
  with r show False by (simp add: recommendations_of_no_assets)
qed

theorem empty_assets_no_artifact_witness:
  "py_getitem (example_crawl example_pages []) ''assets'' = Inr (PList [])
   \<and> \<not> truthy (PList [])
   \<and> page_structure_of Fin (PList example_pages) =
       Inr \<lparr> header_percentage = PFloat (Fin 100), footer_percentage = PFloat (Fin (200 / 3)),
             nav_percentage = PFloat (Fin 0), avg_sections_per_page = PFloat (Fin 1) \<rparr>
   \<and> analyze_crawl_result Fin (Inr (example_crawl example_pages [])) = Inl KeyError"
proof -
  have a: "py_getitem (example_crawl example_pages []) ''assets'' = Inr (PList [])"
    by (simp add: example_crawl_def dict_item_def)
  have t: "\<not> truthy (PList [])" by simp
  have p: "page_structure_of Fin (PList example_pages) =
       Inr \<lparr> header_percentage = PFloat (Fin 100), footer_percentage = PFloat (Fin (200 / 3)),
             nav_percentage = PFloat (Fin 0), avg_sections_per_page = PFloat (Fin 1) \<rparr>"
    by (simp add: example_pages_def example_page_def page_structure_of_def percentage_of_def
        dict_get_default_def)
  have k: "analyze_crawl_result Fin (Inr (example_crawl example_pages [])) = Inl KeyError"
    using empty_assets_no_artifact [OF a t, of Fin]
    by (simp add: analyze_crawl_result_def build_analysis_def example_crawl_def dict_item_def
        p asset_analysis_of_def recommendations_of_def)
  show ?thesis using a t p k by simp
qed

section \<open>Properties of the feedback\<close>

lemma py_iter_len: "py_iter v = Inr xs \<Longrightarrow> py_len v = Inr (length xs)"
  by (cases v) auto

lemma check_files_score:
  assumes "check_files rnd impl fb = Inr fb'" and "fb_score fb = PInt k"
  shows "\<exists>files n. py_getitem impl ''files'' = Inr files \<and> py_len files = Inr n
           \<and> fb_score fb' = PInt (k + (if 3 \<le> n then 1 else 0))"
proof -
  from assms(1) obtain files n where
    f: "py_getitem impl ''files'' = Inr files" and n: "py_len files = Inr n"
    by (auto simp: check_files_def bind_err_Inr)
  have "fb_score fb' = PInt (k + (if 3 \<le> n then 1 else 0))"
  proof (cases "3 \<le> n")
    case True
    with assms f n show ?thesis by (auto simp: check_files_def add_score_def)
  next
    case False
    with assms f n show ?thesis by (auto simp: check_files_def)
  qed
  with f n show ?thesis by blast
qed

lemma check_tests_score:
  assumes "check_tests rnd impl fb = Inr fb'" and "fb_score fb = PInt k"
  shows "\<exists>tp. tests_passed impl = Inr tp
           \<and> fb_score fb' = PInt (k + (if truthy tp then 1 else 0))"
proof -
  from assms(1) obtain tp where t: "tests_passed impl = Inr tp"
    by (auto simp: check_tests_def bind_err_Inr)
  have "fb_score fb' = PInt (k + (if truthy tp then 1 else 0))"
  proof (cases "truthy tp")
    case True
    with assms t show ?thesis by (auto simp: check_tests_def add_score_def)
  next
    case False
    with assms t show ?thesis by (auto simp: check_tests_def split: if_splits)
  qed
  with t show ?thesis by blast
qed

lemma check_recommendations_score:
  assumes "check_recommendations rnd an fb = Inr fb'" and "fb_score fb = PInt k"
  shows "fb_score fb' = PInt (k + 1)"
proof -
  from assms(1) obtain recs items m where
    r: "py_get an ''recommendations'' (PList []) = Inr recs" and i: "py_iter recs = Inr items"
    and m: "py_len recs = Inr m"
    by (auto simp: check_recommendations_def bind_err_Inr Let_def)
  have "m = length items" using py_iter_len [OF i] m by simp
  then show ?thesis
    using assms r i m by (auto simp: check_recommendations_def Let_def add_score_def)
qed

lemma assess_band:
  assumes "assess fb = Inr fb'" and "fb_score fb = PInt k"
  shows "fb_score fb' = PInt k" and "fb_overall_assessment fb' = band k"
  using assms by (auto simp: assess_def band_def split: if_splits)

lemma band_nonempty: "band k \<noteq> []"
  by (simp add: band_def)

lemma score_as_read:
  assumes "evaluate_implementation rnd path (Inr impl) (Inr an) (Inr cr) = Inr fb"
  shows "\<exists>files n tp.
           py_getitem impl ''files'' = Inr files \<and> py_len files = Inr n
           \<and> tests_passed impl = Inr tp
           \<and> fb_score fb = PInt (rubric n tp)
           \<and> fb_overall_assessment fb = band (rubric n tp)
           \<and> fb_overall_assessment fb \<noteq> []"
proof -
  from assms obtain fb1 fb2 fb3 where
    1: "check_files rnd impl (feedback_init path) = Inr fb1"
    and 2: "check_tests rnd impl fb1 = Inr fb2"
    and 3: "check_recommendations rnd an fb2 = Inr fb3"
    and 4: "assess (add_suggestions fb3) = Inr fb"
    by (auto simp: evaluate_implementation_def bind_err_Inr)
  have 0: "fb_score (feedback_init path) = PInt 0" by (simp add: feedback_init_def)
  from check_files_score [OF 1 0] obtain files n where
    f: "py_getitem impl ''files'' = Inr files" "py_len files = Inr n"
    and s1: "fb_score fb1 = PInt (0 + (if 3 \<le> n then 1 else 0))" by blast
  from check_tests_score [OF 2 s1] obtain tp where
    t: "tests_passed impl = Inr tp"
    and s2: "fb_score fb2 = PInt (0 + (if 3 \<le> n then 1 else 0) + (if truthy tp then 1 else 0))"
    by blast
  have s3: "fb_score (add_suggestions fb3) = PInt (rubric n tp)"
    using check_recommendations_score [OF 3 s2] by (simp add: add_suggestions_def rubric_def)
  from assess_band [OF 4 s3] f t show ?thesis
    by (auto simp: band_nonempty)
qed

lemma py_getitem_dict:
  "py_getitem v k = Inr x \<Longrightarrow> \<exists>d. v = PDict d \<and> map_of d k = Some x"
  by (cases v) (auto simp: dict_item_def split: option.splits)

lemma tests_passed_reported:
  "tests_passed (PDict d) = Inr tp \<Longrightarrow> tp = reported_tests_passed d"
  by (auto simp: tests_passed_def reported_tests_passed_def bind_err_Inr dict_get_default_def
      split: option.splits pyval.splits)

lemma check_recommendations_reads:
  assumes "check_recommendations rnd an fb = Inr fb'"
  shows "\<exists>ad items. an = PDict ad
           \<and> py_iter (dict_get_default ad ''recommendations'' (PList [])) = Inr items"
proof -
  from assms obtain recs items where
    r: "py_get an ''recommendations'' (PList []) = Inr recs" and i: "py_iter recs = Inr items"
    by (auto simp: check_recommendations_def bind_err_Inr Let_def)
  from r obtain ad where "an = PDict ad" "recs = dict_get_default ad ''recommendations'' (PList [])"
    by (cases an) auto
  with i show ?thesis by blast
qed

text \<open>
  Claim C7. Every feedback artifact that the evaluation produces comes from an
  implementation result that is a dictionary with a sized \<^verbatim>\<open>files\<close> entry and from an
  analysis that is a dictionary whose recommendations can be iterated, and has an
  integer score given by the rubric: one point for at least three files, one point when
  the test verdict reported under \<^verbatim>\<open>test_results\<close>, \<^verbatim>\<open>tests_passed\<close> is true, and one
  for the recommendations, all of which the loop counts as followed. Its overall
  assessment is the text of the band of that score: good from 2, acceptable from 1 and
  below 2, needing significant improvement below 1; the text is never empty. The
  examples after the theorem give the scores 3, 2 and 1 for three files with passed
  tests, three files with failed tests, and two files without a verdict, and no
  artifact when the recommendations are not iterable or the crawl result cannot be
  loaded.
\<close>

theorem assessment_from_score_band:
  assumes "evaluate_implementation rnd path (Inr impl) (Inr an) (Inr cr) = Inr fb"
  shows "\<exists>d files n ad items.
           impl = PDict d \<and> map_of d ''files'' = Some files \<and> py_len files = Inr n
           \<and> an = PDict ad
           \<and> py_iter (dict_get_default ad ''recommendations'' (PList [])) = Inr items
           \<and> fb_score fb = PInt (rubric n (reported_tests_passed d))
           \<and> fb_overall_assessment fb = band (rubric n (reported_tests_passed d))
           \<and> fb_overall_assessment fb \<noteq> []"
proof -
  from score_as_read [OF assms] obtain files n tp where
    f: "py_getitem impl ''files'' = Inr files" and n: "py_len files = Inr n"
    and t: "tests_passed impl = Inr tp"
    and r: "fb_score fb = PInt (rubric n tp)" "fb_overall_assessment fb = band (rubric n tp)"
      "fb_overall_assessment fb \<noteq> []"
    by blast
  from py_getitem_dict [OF f] obtain d where d: "impl = PDict d" "map_of d ''files'' = Some files"
    by blast
  have tp: "tp = reported_tests_passed d" using t d(1) by (simp add: tests_passed_reported)
  from assms obtain fb2 fb3 where "check_recommendations rnd an fb2 = Inr fb3"
    by (auto simp: evaluate_implementation_def bind_err_Inr)
  from check_recommendations_reads [OF this] obtain ad items where
    a: "an = PDict ad" "py_iter (dict_get_default ad ''recommendations'' (PList [])) = Inr items"
    by blast
  from d n r tp a show ?thesis by blast
qed

lemma example_feedback_values:
  "example_feedback three_files (PBool True) =
     Inr \<lparr> fb_implementation_path = ''implementation/output/result.json'',
           fb_score = PInt 3,
           fb_strengths =
             [''Generated all required files (HTML, CSS, JavaScript)'',
              ''Implementation passes all tests'',
              ''Implementation follows all recommendations from analysis''],
           fb_weaknesses = [],
           fb_suggestions =
             [''Add more responsive design features'',
              ''Implement accessibility improvements'',
              ''Consider adding animation effects for better user experience''],
           fb_overall_assessment = ''Good implementation that meets most requirements'' \<rparr>"
  "example_feedback three_files (PBool False) =
     Inr \<lparr> fb_implementation_path = ''implementation/output/result.json'',
           fb_score = PInt 2,
           fb_strengths =
             [''Generated all required files (HTML, CSS, JavaScript)'',
              ''Implementation follows all recommendations from analysis''],
           fb_weaknesses = [''Implementation fails some tests''],
           fb_suggestions =
             [''Add more responsive design features'',
              ''Implement accessibility improvements'',
              ''Consider adding animation effects for better user experience''],
           fb_overall_assessment = ''Good implementation that meets most requirements'' \<rparr>"
  "example_feedback (take 2 three_files) PNone =
     Inr \<lparr> fb_implementation_path = ''implementation/output/result.json'',
           fb_score = PInt 1,
           fb_strengths = [''Implementation follows all recommendations from analysis''],
           fb_weaknesses = [''Missing some required files''],
           fb_suggestions =
             [''Add more responsive design features'',
              ''Implement accessibility improvements'',
              ''Consider adding animation effects for better user experience''],
           fb_overall_assessment = ''Acceptable implementation with room for improvement'' \<rparr>"
  by (simp_all add: example_feedback_def evaluate_implementation_def check_files_def
      check_tests_def check_recommendations_def add_suggestions_def assess_def add_score_def
      feedback_init_def tests_passed_def example_implementation_def three_files_def
      example_analysis_file_def dict_item_def dict_get_default_def Let_def)

lemma example_feedback_failures:
  "evaluate_implementation Fin ''implementation/output/result.json''
     (Inr (example_implementation three_files (PBool True)))
     (Inr (PDict [(''recommendations'', PInt 5)]))
     (Inr (example_crawl example_pages [example_asset])) = Inl TypeError"
  "evaluate_implementation Fin ''implementation/output/result.json''
     (Inr (example_implementation three_files (PBool True)))
     (Inr example_analysis_file) (Inl OSError) = Inl OSError"
  by (simp_all add: evaluate_implementation_def check_files_def
      check_tests_def check_recommendations_def add_suggestions_def assess_def add_score_def
      feedback_init_def tests_passed_def example_implementation_def three_files_def
      example_analysis_file_def dict_item_def dict_get_default_def Let_def)

theorem assessment_from_score_band_witness:
  "(\<exists>fb. example_feedback three_files (PBool True) = Inr fb
         \<and> fb_score fb = PInt 3
         \<and> fb_overall_assessment fb = ''Good implementation that meets most requirements'')
   \<and> (\<exists>fb. example_feedback three_files (PBool False) = Inr fb
         \<and> fb_score fb = PInt 2
         \<and> fb_overall_assessment fb = ''Good implementation that meets most requirements'')
   \<and> (\<exists>fb. example_feedback (take 2 three_files) PNone = Inr fb
         \<and> fb_score fb = PInt 1
         \<and> fb_overall_assessment fb = ''Acceptable implementation with room for improvement'')
   \<and> evaluate_implementation Fin ''implementation/output/result.json''
         (Inr (example_implementation three_files (PBool True)))
         (Inr (PDict [(''recommendations'', PInt 5)]))
         (Inr (example_crawl example_pages [example_asset])) = Inl TypeError
   \<and> evaluate_implementation Fin ''implementation/output/result.json''
         (Inr (example_implementation three_files (PBool True)))
         (Inr example_analysis_file) (Inl OSError) = Inl OSError"
proof -
  note e = example_feedback_values
  have 1: "\<exists>fb. example_feedback three_files (PBool True) = Inr fb
         \<and> fb_score fb = PInt 3
         \<and> fb_overall_assessment fb = ''Good implementation that meets most requirements''"
    using assessment_from_score_band [OF e(1) [unfolded example_feedback_def]]
    by (simp add: e(1))
  show ?thesis using 1 by (simp add: e example_feedback_failures)
qed

section \<open>Properties of ForeverVMSandbox\<close>

lemma machine_run_dict: "\<exists>d. machine_run outcome = PDict d"
  by (cases outcome) simp_all

text \<open>
  Claim C8. With a machine created, \<^verbatim>\<open>execute_code\<close> raises nothing and returns a
  dictionary with exactly the keys success, output, return_value and error, as the claim
  says. The claim's last part does not hold of the code: \<^verbatim>\<open>ForeverVMMachine.run\<close>
  returns a dictionary, on which \<^verbatim>\<open>result.output\<close> raises AttributeError, so that every
  call ends in the handler and returns the same failure dictionary, whose error entry
  is the text of that AttributeError. A run that timed out and a run that exited
  normally give equal results; nothing in the result reflects the timeout.
\<close>

theorem execute_code_same_failure:
  "execute_code True os code timeout =
     Inr [(''success'', PBool False), (''output'', PNone), (''return_value'', PNone),
          (''error'', PStr ([CHR 0x27] @ ''dict'' @ [CHR 0x27] @ '' object has no attribute ''
                            @ [CHR 0x27] @ ''output'' @ [CHR 0x27]))]
   \<and> map fst (projr (execute_code True os code timeout)) =
       [''success'', ''output'', ''return_value'', ''error'']
   \<and> execute_code True os_timeout code timeout = execute_code True os_prints code timeout"
proof -
  obtain d where d: "machine_run (os code timeout) = PDict d"
    using machine_run_dict by blast
  have 1: "execute_code True os code timeout =
     Inr [(''success'', PBool False), (''output'', PNone), (''return_value'', PNone),
          (''error'', PStr ([CHR 0x27] @ ''dict'' @ [CHR 0x27] @ '' object has no attribute ''
                            @ [CHR 0x27] @ ''output'' @ [CHR 0x27]))]"
    by (simp add: execute_code_def Let_def py_getattr_def d)
  have 2: "execute_code True os_timeout code timeout = execute_code True os_prints code timeout"
    by (simp add: execute_code_def Let_def py_getattr_def os_timeout_def os_prints_def)
  show ?thesis using 1 2 by simp
qed

end
